theory Spec2Isabelle
  imports Complex_Main
begin

section \<open>The portfolio API of Backend/main.py\<close>

text \<open>
  The backend is a FastAPI application over a relational store: two singleton resources
  (profile, education) and four collections (experience, projects, skills,
  certifications). Handlers are modelled as functions from the request body and the
  database to a result and the database afterwards; a raised exception is the
  \<open>Inl\<close> branch of the result. Request bodies are the values the handler
  receives after validation, and \<open>cgpa\<close> is a number that is only stored and
  read back.
\<close>

subsection \<open>URL objects and attribute values\<close>

text \<open>
  \<open>HttpUrl\<close> fields of a schema hold URL objects, and \<open>model_dump()\<close>
  returns them as they are: objects, not strings. An attribute of a mapped object holds
  whatever was assigned to it: a string, as loaded from a \<open>String\<close> column, or
  such a URL object. Only a string can be sent to the store as the value of a
  \<open>String\<close> column.
\<close>

datatype HttpUrl = HttpUrl string

datatype attr_value = Str string | Url HttpUrl

fun binds_to_string :: "attr_value \<Rightarrow> bool" where
  "binds_to_string (Str s) = True"
| "binds_to_string (Url u) = False"

subsection \<open>SQLAlchemy models (database tables)\<close>

record ProfileDB =
  id' :: int
  name :: string
  phone :: string
  email :: string
  linkedin_url :: attr_value
  github_url :: attr_value
  portfolio_url :: "attr_value option"

record EducationDB =
  id' :: int
  institution :: string
  degree :: string
  cgpa :: real
  duration :: string
  location :: string

record ExperienceDB =
  id' :: int
  company :: string
  role :: string
  duration :: string
  description :: "string list"

record ProjectDB =
  id' :: int
  title :: string
  technologies :: "string list"
  description :: "string list"

record SkillCategoryDB =
  id' :: int
  category_name :: string
  skills :: "string list"

record CertificationDB =
  id' :: int
  issuer :: string
  title :: string

subsection \<open>Pydantic schemas for creation (no id)\<close>

record ProfileCreate =
  name :: string
  phone :: string
  email :: string
  linkedin_url :: HttpUrl
  github_url :: HttpUrl
  portfolio_url :: "HttpUrl option"

record EducationCreate =
  institution :: string
  degree :: string
  cgpa :: real
  duration :: string
  location :: string

record ExperienceCreate =
  company :: string
  role :: string
  duration :: string
  description :: "string list"

record ProjectCreate =
  title :: string
  technologies :: "string list"
  description :: "string list"

record SkillCategoryCreate =
  category_name :: string
  skills :: "string list"

record CertificationCreate =
  issuer :: string
  title :: string

subsection \<open>Exceptions and the status the client sees\<close>

text \<open>
  \<open>HTTPException status_code detail\<close> is what the handlers raise themselves.
  \<open>IntegrityError\<close> is what the session raises at commit when a unique column
  would hold a value twice, \<open>ProgrammingError\<close> what it raises at commit when
  an attribute value cannot be sent as the value of its column; no handler catches
  either.
\<close>

datatype exn = HTTPException int string | IntegrityError | ProgrammingError

text \<open>
  The framework answers 200 for a returned value, the exception's own status for an
  \<open>HTTPException\<close>, and 500 for any exception that leaves the handler uncaught.
\<close>

fun status_code :: "exn + 'a \<Rightarrow> int" where
  "status_code (Inr v) = 200"
| "status_code (Inl (HTTPException code detail)) = code"
| "status_code (Inl IntegrityError) = 500"
| "status_code (Inl ProgrammingError) = 500"

subsection \<open>The relational store\<close>

text \<open>
  A table holds its rows in the order the store returns them and the next value of
  the serial sequence behind the primary key.
\<close>

record 'r table =
  rows :: "'r list"
  next_id :: int

record database =
  profile_tbl :: "ProfileDB table"
  education_tbl :: "EducationDB table"
  experience_tbl :: "ExperienceDB table"
  projects_tbl :: "ProjectDB table"
  skill_categories_tbl :: "SkillCategoryDB table"
  certifications_tbl :: "CertificationDB table"

text \<open>
  What the session and the generic helpers use of a mapped class: its constructor from
  the dumped fields of a creation schema (the primary key is filled in by the store),
  whether the attribute values of an object can all be sent as values of their columns,
  its primary key, its unique column if it declares one, and its table.
\<close>

record ('c, 'r) model =
  construct :: "'c \<Rightarrow> int \<Rightarrow> 'r"
  bindable :: "'r \<Rightarrow> bool"
  pk :: "'r \<Rightarrow> int"
  unique_col :: "('r \<Rightarrow> string) option"
  tbl :: "database \<Rightarrow> 'r table"
  put_tbl :: "'r table \<Rightarrow> database \<Rightarrow> database"

definition ProfileDB_model :: "(ProfileCreate, ProfileDB) model" where
  "ProfileDB_model =
     \<lparr>construct = (\<lambda>c i. \<lparr>ProfileDB.id' = i,
          name = ProfileCreate.name c, phone = ProfileCreate.phone c,
          email = ProfileCreate.email c,
          linkedin_url = Url (ProfileCreate.linkedin_url c),
          github_url = Url (ProfileCreate.github_url c),
          portfolio_url = map_option Url (ProfileCreate.portfolio_url c)\<rparr>),
      bindable = (\<lambda>r. binds_to_string (ProfileDB.linkedin_url r) \<and>
          binds_to_string (ProfileDB.github_url r) \<and>
          (case ProfileDB.portfolio_url r of None \<Rightarrow> True
           | Some v \<Rightarrow> binds_to_string v)),
      pk = ProfileDB.id',
      unique_col = Some ProfileDB.email,
      tbl = profile_tbl,
      put_tbl = (\<lambda>t db. db\<lparr>profile_tbl := t\<rparr>)\<rparr>"

definition EducationDB_model :: "(EducationCreate, EducationDB) model" where
  "EducationDB_model =
     \<lparr>construct = (\<lambda>c i. \<lparr>EducationDB.id' = i,
          institution = EducationCreate.institution c, degree = EducationCreate.degree c,
          cgpa = EducationCreate.cgpa c, duration = EducationCreate.duration c,
          location = EducationCreate.location c\<rparr>),
      bindable = (\<lambda>r. True),
      pk = EducationDB.id',
      unique_col = None,
      tbl = education_tbl,
      put_tbl = (\<lambda>t db. db\<lparr>education_tbl := t\<rparr>)\<rparr>"

definition ExperienceDB_model :: "(ExperienceCreate, ExperienceDB) model" where
  "ExperienceDB_model =
     \<lparr>construct = (\<lambda>c i. \<lparr>ExperienceDB.id' = i,
          company = ExperienceCreate.company c, role = ExperienceCreate.role c,
          duration = ExperienceCreate.duration c,
          description = ExperienceCreate.description c\<rparr>),
      bindable = (\<lambda>r. True),
      pk = ExperienceDB.id',
      unique_col = None,
      tbl = experience_tbl,
      put_tbl = (\<lambda>t db. db\<lparr>experience_tbl := t\<rparr>)\<rparr>"

definition ProjectDB_model :: "(ProjectCreate, ProjectDB) model" where
  "ProjectDB_model =
     \<lparr>construct = (\<lambda>c i. \<lparr>ProjectDB.id' = i,
          title = ProjectCreate.title c, technologies = ProjectCreate.technologies c,
          description = ProjectCreate.description c\<rparr>),
      bindable = (\<lambda>r. True),
      pk = ProjectDB.id',
      unique_col = None,
      tbl = projects_tbl,
      put_tbl = (\<lambda>t db. db\<lparr>projects_tbl := t\<rparr>)\<rparr>"

definition SkillCategoryDB_model :: "(SkillCategoryCreate, SkillCategoryDB) model" where
  "SkillCategoryDB_model =
     \<lparr>construct = (\<lambda>c i. \<lparr>SkillCategoryDB.id' = i,
          category_name = SkillCategoryCreate.category_name c,
          skills = SkillCategoryCreate.skills c\<rparr>),
      bindable = (\<lambda>r. True),
      pk = SkillCategoryDB.id',
      unique_col = Some SkillCategoryDB.category_name,
      tbl = skill_categories_tbl,
      put_tbl = (\<lambda>t db. db\<lparr>skill_categories_tbl := t\<rparr>)\<rparr>"

definition CertificationDB_model :: "(CertificationCreate, CertificationDB) model" where
  "CertificationDB_model =
     \<lparr>construct = (\<lambda>c i. \<lparr>CertificationDB.id' = i,
          issuer = CertificationCreate.issuer c, title = CertificationCreate.title c\<rparr>),
      bindable = (\<lambda>r. True),
      pk = CertificationDB.id',
      unique_col = None,
      tbl = certifications_tbl,
      put_tbl = (\<lambda>t db. db\<lparr>certifications_tbl := t\<rparr>)\<rparr>"

text \<open>
  Modelled from the spec: the persistence layer (the SQLAlchemy session and the
  PostgreSQL store behind it), which is not part of the repository. Section 4.1 gives
  its contract: \<open>insert\<close> returns the stored record with its identifier and
  fails with a constraint violation when a uniqueness invariant is broken,
  \<open>find_first\<close> returns a record or nothing, \<open>find_all\<close> returns
  the records in insertion order, \<open>update\<close> overwrites all fields of an
  existing row, \<open>delete_by_id\<close> returns whether a row existed. Identifiers
  come from the table's sequence, which moves on at every insert the store receives,
  also one it refuses. An insert or update of an object with an attribute value that
  cannot be sent is raised as \<open>ProgrammingError\<close> before the store receives
  it, and changes nothing.
\<close>

definition violates_unique :: "('c, 'r) model \<Rightarrow> 'r \<Rightarrow> 'r list \<Rightarrow> bool" where
  "violates_unique m r others =
     (case unique_col m of None \<Rightarrow> False | Some col \<Rightarrow> col r \<in> set (map col others))"

text \<open>\<open>db.query(M).first()\<close>\<close>

definition find_first :: "database \<Rightarrow> ('c, 'r) model \<Rightarrow> 'r option" where
  "find_first db m = (case rows (tbl m db) of [] \<Rightarrow> None | r # rs \<Rightarrow> Some r)"

text \<open>\<open>db.query(M).all()\<close>\<close>

definition find_all :: "database \<Rightarrow> ('c, 'r) model \<Rightarrow> 'r list" where
  "find_all db m = rows (tbl m db)"

text \<open>\<open>db.query(M).filter(M.id == item_id).first()\<close>\<close>

definition find_by_id :: "database \<Rightarrow> ('c, 'r) model \<Rightarrow> int \<Rightarrow> 'r option" where
  "find_by_id db m item_id = find (\<lambda>r. pk m r = item_id) (rows (tbl m db))"

text \<open>\<open>x = M(**schema.model_dump()); db.add(x); db.commit(); db.refresh(x)\<close>\<close>

definition insert_row :: "database \<Rightarrow> ('c, 'r) model \<Rightarrow> 'c \<Rightarrow> (exn + 'r) \<times> database" where
  "insert_row db m c =
     (let t = tbl m db; r = construct m c (next_id t) in
      if \<not> bindable m r then (Inl ProgrammingError, db)
      else if violates_unique m r (rows t)
      then (Inl IntegrityError, put_tbl m (t\<lparr>next_id := next_id t + 1\<rparr>) db)
      else (Inr r, put_tbl m (t\<lparr>rows := rows t @ [r], next_id := next_id t + 1\<rparr>) db))"

text \<open>\<open>db.commit(); db.refresh(x)\<close> after attributes of the loaded row \<open>x\<close> were set\<close>

definition update_row :: "database \<Rightarrow> ('c, 'r) model \<Rightarrow> 'r \<Rightarrow> (exn + 'r) \<times> database" where
  "update_row db m r =
     (let t = tbl m db in
      if \<not> bindable m r then (Inl ProgrammingError, db)
      else if violates_unique m r (filter (\<lambda>x. pk m x \<noteq> pk m r) (rows t))
      then (Inl IntegrityError, db)
      else (Inr r,
            put_tbl m (t\<lparr>rows := map (\<lambda>x. if pk m x = pk m r then r else x) (rows t)\<rparr>) db))"

text \<open>\<open>db.delete(x); db.commit()\<close>, with \<open>item_id\<close> the primary key of \<open>x\<close>\<close>

definition delete_by_id :: "database \<Rightarrow> ('c, 'r) model \<Rightarrow> int \<Rightarrow> bool \<times> database" where
  "delete_by_id db m item_id =
     (let t = tbl m db in
      (list_ex (\<lambda>r. pk m r = item_id) (rows t),
       put_tbl m (t\<lparr>rows := filter (\<lambda>r. pk m r \<noteq> item_id) (rows t)\<rparr>) db))"

text \<open>The store before any request: every table empty, every sequence at 1.\<close>

definition empty_table :: "'r table" where
  "empty_table = \<lparr>rows = [], next_id = 1\<rparr>"

definition empty_db :: database where
  "empty_db =
     \<lparr>profile_tbl = empty_table, education_tbl = empty_table,
      experience_tbl = empty_table, projects_tbl = empty_table,
      skill_categories_tbl = empty_table, certifications_tbl = empty_table\<rparr>"

subsection \<open>Profile endpoints (singleton)\<close>

text \<open>
  \<open>profile.model_dump()\<close> gives the three URL fields as URL objects, and both
  handlers pass them on unconverted: \<open>create_profile\<close> to the constructor of
  the mapped class, \<open>update_profile\<close> to \<open>setattr\<close> on the loaded row.
\<close>

definition create_profile :: "ProfileCreate \<Rightarrow> database \<Rightarrow> (exn + ProfileDB) \<times> database" where
  "create_profile profile db =
     (case find_first db ProfileDB_model of
        Some existing \<Rightarrow>
          (Inl (HTTPException 400 ''Profile already exists. Use PUT to update.''), db)
      | None \<Rightarrow> insert_row db ProfileDB_model profile)"

definition get_profile :: "database \<Rightarrow> ProfileDB option" where
  "get_profile db = find_first db ProfileDB_model"

definition update_profile :: "ProfileCreate \<Rightarrow> database \<Rightarrow> (exn + ProfileDB) \<times> database" where
  "update_profile profile db =
     (case find_first db ProfileDB_model of
        None \<Rightarrow> (Inl (HTTPException 404 ''Profile not found. Use POST to create one.''), db)
      | Some db_profile \<Rightarrow>
          update_row db ProfileDB_model
            (db_profile\<lparr>ProfileDB.name := ProfileCreate.name profile,
                         ProfileDB.phone := ProfileCreate.phone profile,
                         ProfileDB.email := ProfileCreate.email profile,
                         ProfileDB.linkedin_url := Url (ProfileCreate.linkedin_url profile),
                         ProfileDB.github_url := Url (ProfileCreate.github_url profile),
                         ProfileDB.portfolio_url :=
                           map_option Url (ProfileCreate.portfolio_url profile)\<rparr>))"

subsection \<open>Education endpoints (singleton)\<close>

definition create_education ::
  "EducationCreate \<Rightarrow> database \<Rightarrow> (exn + EducationDB) \<times> database" where
  "create_education education db =
     (case find_first db EducationDB_model of
        Some existing \<Rightarrow>
          (Inl (HTTPException 400 ''Education entry already exists. Use PUT to update.''), db)
      | None \<Rightarrow> insert_row db EducationDB_model education)"

definition get_education :: "database \<Rightarrow> EducationDB option" where
  "get_education db = find_first db EducationDB_model"

definition update_education ::
  "EducationCreate \<Rightarrow> database \<Rightarrow> (exn + EducationDB) \<times> database" where
  "update_education education db =
     (case find_first db EducationDB_model of
        None \<Rightarrow> (Inl (HTTPException 404 ''Education not found. Use POST to create one.''), db)
      | Some db_education \<Rightarrow>
          update_row db EducationDB_model
            (db_education\<lparr>EducationDB.institution := EducationCreate.institution education,
                           EducationDB.degree := EducationCreate.degree education,
                           EducationDB.cgpa := EducationCreate.cgpa education,
                           EducationDB.duration := EducationCreate.duration education,
                           EducationDB.location := EducationCreate.location education\<rparr>))"

subsection \<open>Generic CRUD functions for list-based items\<close>

definition create_item :: "database \<Rightarrow> ('c, 'r) model \<Rightarrow> 'c \<Rightarrow> (exn + 'r) \<times> database" where
  "create_item db model_db schema_create = insert_row db model_db schema_create"

definition get_items :: "database \<Rightarrow> ('c, 'r) model \<Rightarrow> 'r list" where
  "get_items db model_db = find_all db model_db"

definition delete_item ::
  "database \<Rightarrow> ('c, 'r) model \<Rightarrow> int \<Rightarrow> (exn + string) \<times> database" where
  "delete_item db model_db item_id =
     (case find_by_id db model_db item_id of
        None \<Rightarrow> (Inl (HTTPException 404 ''Item not found''), db)
      | Some db_item \<Rightarrow>
          (Inr ''Item deleted successfully'',
           snd (delete_by_id db model_db (pk model_db db_item))))"

subsection \<open>Collection endpoints\<close>

definition add_experience ::
  "ExperienceCreate \<Rightarrow> database \<Rightarrow> (exn + ExperienceDB) \<times> database" where
  "add_experience experience db = create_item db ExperienceDB_model experience"

definition get_all_experiences :: "database \<Rightarrow> ExperienceDB list" where
  "get_all_experiences db = get_items db ExperienceDB_model"

definition delete_experience :: "int \<Rightarrow> database \<Rightarrow> (exn + string) \<times> database" where
  "delete_experience exp_id db = delete_item db ExperienceDB_model exp_id"

definition add_project :: "ProjectCreate \<Rightarrow> database \<Rightarrow> (exn + ProjectDB) \<times> database" where
  "add_project project db = create_item db ProjectDB_model project"

definition get_all_projects :: "database \<Rightarrow> ProjectDB list" where
  "get_all_projects db = get_items db ProjectDB_model"

definition delete_project :: "int \<Rightarrow> database \<Rightarrow> (exn + string) \<times> database" where
  "delete_project proj_id db = delete_item db ProjectDB_model proj_id"

definition add_skill_category ::
  "SkillCategoryCreate \<Rightarrow> database \<Rightarrow> (exn + SkillCategoryDB) \<times> database" where
  "add_skill_category skill db = create_item db SkillCategoryDB_model skill"

definition get_all_skill_categories :: "database \<Rightarrow> SkillCategoryDB list" where
  "get_all_skill_categories db = get_items db SkillCategoryDB_model"

definition delete_skill_category :: "int \<Rightarrow> database \<Rightarrow> (exn + string) \<times> database" where
  "delete_skill_category skill_id db = delete_item db SkillCategoryDB_model skill_id"

definition add_certification ::
  "CertificationCreate \<Rightarrow> database \<Rightarrow> (exn + CertificationDB) \<times> database" where
  "add_certification cert db = create_item db CertificationDB_model cert"

definition get_all_certifications :: "database \<Rightarrow> CertificationDB list" where
  "get_all_certifications db = get_items db CertificationDB_model"

definition delete_certification :: "int \<Rightarrow> database \<Rightarrow> (exn + string) \<times> database" where
  "delete_certification cert_id db = delete_item db CertificationDB_model cert_id"

subsection \<open>The routes\<close>

text \<open>
  One constructor per route of the application. \<open>serve\<close> gives the database after
  the route's handler has run; the GET routes only read.
\<close>

datatype request =
    GET_root
  | POST_profile ProfileCreate
  | GET_profile
  | PUT_profile ProfileCreate
  | POST_education EducationCreate
  | GET_education
  | PUT_education EducationCreate
  | POST_experience ExperienceCreate
  | GET_experience
  | DELETE_experience int
  | POST_projects ProjectCreate
  | GET_projects
  | DELETE_projects int
  | POST_skills SkillCategoryCreate
  | GET_skills
  | DELETE_skills int
  | POST_certifications CertificationCreate
  | GET_certifications
  | DELETE_certifications int

fun serve :: "request \<Rightarrow> database \<Rightarrow> database" where
  "serve GET_root db = db"
| "serve (POST_profile body) db = snd (create_profile body db)"
| "serve GET_profile db = db"
| "serve (PUT_profile body) db = snd (update_profile body db)"
| "serve (POST_education body) db = snd (create_education body db)"
| "serve GET_education db = db"
| "serve (PUT_education body) db = snd (update_education body db)"
| "serve (POST_experience body) db = snd (add_experience body db)"
| "serve GET_experience db = db"
| "serve (DELETE_experience exp_id) db = snd (delete_experience exp_id db)"
| "serve (POST_projects body) db = snd (add_project body db)"
| "serve GET_projects db = db"
| "serve (DELETE_projects proj_id) db = snd (delete_project proj_id db)"
| "serve (POST_skills body) db = snd (add_skill_category body db)"
| "serve GET_skills db = db"
| "serve (DELETE_skills skill_id) db = snd (delete_skill_category skill_id db)"
| "serve (POST_certifications body) db = snd (add_certification body db)"
| "serve GET_certifications db = db"
| "serve (DELETE_certifications cert_id) db = snd (delete_certification cert_id db)"

fun run :: "request list \<Rightarrow> database \<Rightarrow> database" where
  "run [] db = db"
| "run (req # reqs) db = run reqs (serve req db)"

subsection \<open>Sequences of creates and deletes on one collection\<close>

text \<open>
  \<open>run_ops\<close> applies creates and deletes of one collection in order.
  \<open>created\<close> collects the rows the successful creates returned, in call order;
  \<open>deleted\<close> collects the identifiers whose delete succeeded.
\<close>

datatype 'c coll_op = Create 'c | Delete int

fun apply_op :: "('c, 'r) model \<Rightarrow> 'c coll_op \<Rightarrow> database \<Rightarrow> database" where
  "apply_op m (Create c) db = snd (create_item db m c)"
| "apply_op m (Delete i) db = snd (delete_item db m i)"

fun run_ops :: "('c, 'r) model \<Rightarrow> 'c coll_op list \<Rightarrow> database \<Rightarrow> database" where
  "run_ops m [] db = db"
| "run_ops m (a # ops) db = run_ops m ops (apply_op m a db)"

fun created :: "('c, 'r) model \<Rightarrow> 'c coll_op list \<Rightarrow> database \<Rightarrow> 'r list" where
  "created m [] db = []"
| "created m (Create c # ops) db =
     (case fst (create_item db m c) of Inr r \<Rightarrow> [r] | Inl e \<Rightarrow> []) @
     created m ops (snd (create_item db m c))"
| "created m (Delete i # ops) db = created m ops (snd (delete_item db m i))"

fun deleted :: "('c, 'r) model \<Rightarrow> 'c coll_op list \<Rightarrow> database \<Rightarrow> int list" where
  "deleted m [] db = []"
| "deleted m (Create c # ops) db = deleted m ops (snd (create_item db m c))"
| "deleted m (Delete i # ops) db =
     (case fst (delete_item db m i) of Inr msg \<Rightarrow> [i] | Inl e \<Rightarrow> []) @
     deleted m ops (snd (delete_item db m i))"

subsection \<open>Identifiers in a table\<close>

text \<open>
  Primary keys of a table are pairwise different and all below the next value of its
  sequence.
\<close>

definition ids_ok :: "('c, 'r) model \<Rightarrow> database \<Rightarrow> bool" where
  "ids_ok m db =
     (distinct (map (pk m) (rows (tbl m db))) \<and>
      list_all (\<lambda>r. pk m r < next_id (tbl m db)) (rows (tbl m db)))"

subsection \<open>Sample requests\<close>

text \<open>
  Request bodies at which the theorems below are instantiated, and a database whose
  profile table holds one row with its URLs stored as strings.
\<close>

definition sample_profile :: ProfileCreate where
  "sample_profile =
     \<lparr>ProfileCreate.name = ''A'', phone = ''1'', email = ''a@x.com'',
      linkedin_url = HttpUrl ''https://li.com/a'',
      github_url = HttpUrl ''https://gh.com/a'', portfolio_url = None\<rparr>"

definition other_profile :: ProfileCreate where
  "other_profile =
     \<lparr>ProfileCreate.name = ''B'', phone = ''2'', email = ''b@x.com'',
      linkedin_url = HttpUrl ''https://li.com/b'',
      github_url = HttpUrl ''https://gh.com/b'',
      portfolio_url = Some (HttpUrl ''https://b.dev/'')\<rparr>"

definition stored_profile :: ProfileDB where
  "stored_profile =
     \<lparr>ProfileDB.id' = 1, name = ''A'', phone = ''1'', email = ''a@x.com'',
      linkedin_url = Str ''https://li.com/a'', github_url = Str ''https://gh.com/a'',
      portfolio_url = None\<rparr>"

definition profile_stored_db :: database where
  "profile_stored_db =
     empty_db\<lparr>profile_tbl := \<lparr>rows = [stored_profile], next_id = 2\<rparr>\<rparr>"

definition sample_education :: EducationCreate where
  "sample_education =
     \<lparr>EducationCreate.institution = ''U'', degree = ''BTech'', cgpa = 9,
      duration = ''2021-2025'', location = ''Kolkata''\<rparr>"

definition other_education :: EducationCreate where
  "other_education =
     \<lparr>EducationCreate.institution = ''V'', degree = ''MTech'', cgpa = 8,
      duration = ''2025-2027'', location = ''Delhi''\<rparr>"

definition sample_experience :: ExperienceCreate where
  "sample_experience =
     \<lparr>ExperienceCreate.company = ''C'', role = ''Intern'', duration = ''2024'',
      description = [''d'']\<rparr>"

definition sample_project :: ProjectCreate where
  "sample_project =
     \<lparr>ProjectCreate.title = ''P1'', technologies = [''X''], description = [''d'']\<rparr>"

definition sample_skill :: SkillCategoryCreate where
  "sample_skill = \<lparr>SkillCategoryCreate.category_name = ''Languages'', skills = [''Python'']\<rparr>"

definition other_skill :: SkillCategoryCreate where
  "other_skill = \<lparr>SkillCategoryCreate.category_name = ''Languages'', skills = [''C'']\<rparr>"

definition sample_certification :: CertificationCreate where
  "sample_certification = \<lparr>CertificationCreate.issuer = ''I'', title = ''T''\<rparr>"

definition third_skill :: SkillCategoryCreate where
  "third_skill = \<lparr>SkillCategoryCreate.category_name = ''Tools'', skills = [''Git'']\<rparr>"

definition sample_requests :: "request list" where
  "sample_requests =
     [POST_profile sample_profile, POST_education sample_education,
      POST_experience sample_experience, POST_experience sample_experience,
      POST_projects sample_project, POST_projects sample_project,
      POST_skills sample_skill, POST_skills third_skill,
      POST_certifications sample_certification, POST_certifications sample_certification]"

section \<open>Properties\<close>

subsection \<open>Unfolding the handlers\<close>

lemmas model_defs = ProfileDB_model_def EducationDB_model_def ExperienceDB_model_def
  ProjectDB_model_def SkillCategoryDB_model_def CertificationDB_model_def

lemmas store_defs = violates_unique_def find_first_def find_all_def find_by_id_def
  insert_row_def update_row_def delete_by_id_def

lemmas handler_defs = create_profile_def get_profile_def update_profile_def
  create_education_def get_education_def update_education_def
  create_item_def get_items_def delete_item_def
  add_experience_def get_all_experiences_def delete_experience_def
  add_project_def get_all_projects_def delete_project_def
  add_skill_category_def get_all_skill_categories_def delete_skill_category_def
  add_certification_def get_all_certifications_def delete_certification_def

subsection \<open>Singleton handlers\<close>

lemma serve_singletons:
  "length (rows (profile_tbl db)) \<le> 1 \<and> length (rows (education_tbl db)) \<le> 1 \<Longrightarrow>
   length (rows (profile_tbl (serve req db))) \<le> 1 \<and>
   length (rows (education_tbl (serve req db))) \<le> 1"
  by (cases req)
     (auto simp: model_defs store_defs handler_defs Let_def split: option.splits list.splits)

lemma run_singletons:
  "length (rows (profile_tbl db)) \<le> 1 \<and> length (rows (education_tbl db)) \<le> 1 \<Longrightarrow>
   length (rows (profile_tbl (run reqs db))) \<le> 1 \<and>
   length (rows (education_tbl (run reqs db))) \<le> 1"
proof (induction reqs arbitrary: db)
  case Nil
  then show ?case by simp
next
  case (Cons req reqs)
  from Cons.prems have "length (rows (profile_tbl (serve req db))) \<le> 1 \<and>
      length (rows (education_tbl (serve req db))) \<le> 1"
    by (rule serve_singletons)
  then show ?case using Cons.IH by simp
qed

lemma reachable_singletons:
  "length (rows (profile_tbl (run reqs empty_db))) \<le> 1 \<and>
   length (rows (education_tbl (run reqs empty_db))) \<le> 1"
  by (rule run_singletons) (simp add: empty_db_def empty_table_def)

lemma serve_present:
  "(rows (profile_tbl db) \<noteq> [] \<longrightarrow> rows (profile_tbl (serve req db)) \<noteq> []) \<and>
   (rows (education_tbl db) \<noteq> [] \<longrightarrow> rows (education_tbl (serve req db)) \<noteq> [])"
  by (cases req)
     (auto simp: model_defs store_defs handler_defs Let_def split: option.splits list.splits)

lemma run_present_profile:
  "rows (profile_tbl db) \<noteq> [] \<Longrightarrow> rows (profile_tbl (run reqs db)) \<noteq> []"
  by (induction reqs arbitrary: db) (simp_all add: serve_present)

lemma run_present_education:
  "rows (education_tbl db) \<noteq> [] \<Longrightarrow> rows (education_tbl (run reqs db)) \<noteq> []"
  by (induction reqs arbitrary: db) (simp_all add: serve_present)

lemma get_profile_None_iff: "get_profile db = None \<longleftrightarrow> rows (profile_tbl db) = []"
  by (simp add: get_profile_def find_first_def ProfileDB_model_def split: list.splits)

lemma get_education_None_iff: "get_education db = None \<longleftrightarrow> rows (education_tbl db) = []"
  by (simp add: get_education_def find_first_def EducationDB_model_def split: list.splits)

lemma create_profile_present:
  "get_profile db \<noteq> None \<Longrightarrow>
   create_profile body db =
     (Inl (HTTPException 400 ''Profile already exists. Use PUT to update.''), db)"
  by (auto simp: create_profile_def get_profile_def)

lemma create_education_present:
  "get_education db \<noteq> None \<Longrightarrow>
   create_education body db =
     (Inl (HTTPException 400 ''Education entry already exists. Use PUT to update.''), db)"
  by (auto simp: create_education_def get_education_def)

lemma create_profile_absent:
  "get_profile db = None \<Longrightarrow> create_profile body db = (Inl ProgrammingError, db)"
  by (simp add: create_profile_def get_profile_def insert_row_def ProfileDB_model_def Let_def)

lemma create_profile_never_succeeds: "fst (create_profile body db) \<noteq> Inr p"
proof (cases "get_profile db")
  case None
  then show ?thesis by (simp add: create_profile_absent)
next
  case (Some r)
  then have "get_profile db \<noteq> None" by simp
  then show ?thesis by (simp add: create_profile_present)
qed

lemma create_education_absent:
  "get_education db = None \<Longrightarrow>
   create_education body db =
     (Inr (construct EducationDB_model body (next_id (education_tbl db))),
      db\<lparr>education_tbl := (education_tbl db)
            \<lparr>rows := [construct EducationDB_model body (next_id (education_tbl db))],
             next_id := next_id (education_tbl db) + 1\<rparr>\<rparr>)"
  by (auto simp: create_education_def get_education_def store_defs EducationDB_model_def Let_def
           split: list.splits)

lemma update_profile_absent:
  "get_profile db = None \<Longrightarrow>
   update_profile body db =
     (Inl (HTTPException 404 ''Profile not found. Use POST to create one.''), db)"
  by (simp add: update_profile_def get_profile_def)

lemma update_education_absent:
  "get_education db = None \<Longrightarrow>
   update_education body db =
     (Inl (HTTPException 404 ''Education not found. Use POST to create one.''), db)"
  by (simp add: update_education_def get_education_def)

lemma update_profile_present:
  "get_profile db \<noteq> None \<Longrightarrow> update_profile body db = (Inl ProgrammingError, db)"
  by (auto simp: update_profile_def get_profile_def update_row_def ProfileDB_model_def Let_def)

lemma update_profile_never_succeeds: "fst (update_profile body db) \<noteq> Inr p"
proof (cases "get_profile db")
  case None
  then show ?thesis by (simp add: update_profile_absent)
next
  case (Some r)
  then have "get_profile db \<noteq> None" by simp
  then show ?thesis by (simp add: update_profile_present)
qed

lemma update_education_single:
  "rows (education_tbl db) = [old] \<Longrightarrow>
   update_education body db =
     (Inr (construct EducationDB_model body (EducationDB.id' old)),
      db\<lparr>education_tbl := (education_tbl db)
            \<lparr>rows := [construct EducationDB_model body (EducationDB.id' old)]\<rparr>\<rparr>)"
  by (cases old)
     (simp add: update_education_def store_defs EducationDB_model_def Let_def)

lemma single_row: "length xs \<le> 1 \<Longrightarrow> xs \<noteq> [] \<Longrightarrow> \<exists>x. xs = [x]"
  by (cases xs) auto

subsection \<open>Updating a loaded row\<close>

lemma replace_keeps_keys:
  "map f (map (\<lambda>x. if f x = f r then r else x) xs) = map f xs"
  by (induction xs) auto

lemma replace_twice:
  "map (\<lambda>x. if f x = f r then r else x) (map (\<lambda>x. if f x = f r then r else x) xs) =
   map (\<lambda>x. if f x = f r then r else x) xs"
  by (induction xs) auto

lemma others_after_replace:
  "filter (\<lambda>x. f x \<noteq> f r) (map (\<lambda>x. if f x = f r then r else x) xs) =
   filter (\<lambda>x. f x \<noteq> f r) xs"
  by (induction xs) auto

lemma update_profile_twice:
  "update_profile body (snd (update_profile body db)) = update_profile body db"
proof (cases "get_profile db")
  case None
  then show ?thesis by (simp add: update_profile_absent)
next
  case (Some r)
  then have "get_profile db \<noteq> None" by simp
  then show ?thesis by (simp add: update_profile_present)
qed

lemma update_education_twice:
  "update_education body (snd (update_education body db)) = update_education body db"
proof (cases "rows (education_tbl db)")
  case Nil
  then show ?thesis
    by (simp add: update_education_def find_first_def EducationDB_model_def)
next
  case (Cons old rest)
  then show ?thesis
    by (cases old)
       (auto simp: update_education_def store_defs EducationDB_model_def Let_def
          replace_twice others_after_replace)
qed

lemma update_profile_id:
  assumes "get_profile db = Some old" and "update_profile body db = (Inr p, db')"
  shows "ProfileDB.id' p = ProfileDB.id' old \<and> get_profile db' = Some p \<and>
     map ProfileDB.id' (rows (profile_tbl db')) = map ProfileDB.id' (rows (profile_tbl db))"
proof -
  from assms(2) have "fst (update_profile body db) = Inr p" by simp
  with update_profile_never_succeeds [of body db p] show ?thesis by simp
qed

lemma update_education_id:
  assumes "get_education db = Some old" and "update_education body db = (Inr p, db')"
  shows "EducationDB.id' p = EducationDB.id' old \<and> get_education db' = Some p \<and>
     map EducationDB.id' (rows (education_tbl db')) = map EducationDB.id' (rows (education_tbl db))"
proof -
  from assms(1) obtain rest where r: "rows (education_tbl db) = old # rest"
    by (auto simp: get_education_def find_first_def EducationDB_model_def split: list.splits)
  have k: "map EducationDB.id' (map (\<lambda>x. if EducationDB.id' x = EducationDB.id' q then q else x) xs)
      = map EducationDB.id' xs" for q xs
    by (rule replace_keeps_keys)
  from assms(2) r show ?thesis
    by (auto simp: update_education_def get_education_def store_defs EducationDB_model_def Let_def k
        split: if_splits)
qed

subsection \<open>Collection helpers\<close>

lemma filter_other_ids:
  "distinct (map f xs) \<Longrightarrow> r \<in> set xs \<Longrightarrow> filter (\<lambda>x. f x \<noteq> f r) xs = remove1 r xs"
proof (induction xs)
  case Nil
  then show ?case by simp
next
  case (Cons x xs)
  show ?case
  proof (cases "x = r")
    case True
    with Cons.prems have "\<forall>y\<in>set xs. f y \<noteq> f r" by (auto simp: image_iff)
    then have "filter (\<lambda>y. f y \<noteq> f r) xs = xs" by (simp add: filter_id_conv)
    with True show ?thesis by simp
  next
    case False
    with Cons.prems have "r \<in> set xs" "f x \<noteq> f r" "distinct (map f xs)" by auto
    with Cons.IH False show ?thesis by simp
  qed
qed

lemma find_by_id_None_iff:
  "find_by_id db m i = None \<longleftrightarrow> i \<notin> set (map (pk m) (rows (tbl m db)))"
  by (auto simp: find_by_id_def find_None_iff)

lemma find_by_id_SomeD:
  "find_by_id db m i = Some r \<Longrightarrow> r \<in> set (rows (tbl m db)) \<and> pk m r = i"
  by (auto simp: find_by_id_def find_Some_iff)

lemma delete_item_missing:
  "i \<notin> set (map (pk m) (get_items db m)) \<Longrightarrow>
   delete_item db m i = (Inl (HTTPException 404 ''Item not found''), db)"
proof -
  assume "i \<notin> set (map (pk m) (get_items db m))"
  then have "find_by_id db m i = None"
    by (simp add: find_by_id_None_iff get_items_def find_all_def)
  then show ?thesis by (simp add: delete_item_def)
qed

lemma delete_item_found:
  assumes "r \<in> set (get_items db m)" and "distinct (map (pk m) (get_items db m))"
  shows "delete_item db m (pk m r) =
     (Inr ''Item deleted successfully'',
      put_tbl m ((tbl m db)\<lparr>rows := remove1 r (rows (tbl m db))\<rparr>) db)"
proof -
  from assms have r: "r \<in> set (rows (tbl m db))" and d: "distinct (map (pk m) (rows (tbl m db)))"
    by (simp_all add: get_items_def find_all_def)
  from r have "find_by_id db m (pk m r) \<noteq> None"
    by (simp add: find_by_id_None_iff)
  then obtain x where x: "find_by_id db m (pk m r) = Some x" by auto
  then have "pk m x = pk m r" by (simp add: find_by_id_SomeD)
  with x show ?thesis
    by (simp add: delete_item_def delete_by_id_def Let_def filter_other_ids [OF d r])
qed

lemma create_item_tbl:
  assumes "\<And>t d. tbl m (put_tbl m t d) = t" and "\<And>r. bindable m r"
  shows "tbl m (snd (create_item db m c)) =
     (if violates_unique m (construct m c (next_id (tbl m db))) (rows (tbl m db))
      then (tbl m db)\<lparr>next_id := next_id (tbl m db) + 1\<rparr>
      else (tbl m db)\<lparr>rows := rows (tbl m db) @ [construct m c (next_id (tbl m db))],
                       next_id := next_id (tbl m db) + 1\<rparr>)"
  by (simp add: create_item_def insert_row_def Let_def assms)

lemma create_item_fst:
  assumes "\<And>r. bindable m r"
  shows "fst (create_item db m c) =
     (if violates_unique m (construct m c (next_id (tbl m db))) (rows (tbl m db))
      then Inl IntegrityError else Inr (construct m c (next_id (tbl m db))))"
  by (simp add: create_item_def insert_row_def Let_def assms)

lemma delete_item_tbl:
  assumes "\<And>t d. tbl m (put_tbl m t d) = t"
  shows "tbl m (snd (delete_item db m i)) =
     (tbl m db)\<lparr>rows := filter (\<lambda>r. pk m r \<noteq> i) (rows (tbl m db))\<rparr>"
proof (cases "find_by_id db m i")
  case None
  then have "\<forall>r\<in>set (rows (tbl m db)). pk m r \<noteq> i"
    by (auto simp: find_by_id_None_iff)
  then have "filter (\<lambda>r. pk m r \<noteq> i) (rows (tbl m db)) = rows (tbl m db)"
    by (simp add: filter_id_conv)
  with None show ?thesis by (simp add: delete_item_def)
next
  case (Some x)
  then have "pk m x = i" by (simp add: find_by_id_SomeD)
  with Some show ?thesis by (simp add: delete_item_def delete_by_id_def Let_def assms)
qed

lemma delete_item_fst:
  "fst (delete_item db m i) =
     (if i \<in> set (map (pk m) (rows (tbl m db))) then Inr ''Item deleted successfully''
      else Inl (HTTPException 404 ''Item not found''))"
  using find_by_id_None_iff [of db m i]
  by (cases "find_by_id db m i") (simp_all add: delete_item_def)

lemma created_fresh:
  assumes lens: "\<And>t d. tbl m (put_tbl m t d) = t" and pkc: "\<And>c i. pk m (construct m c i) = i"
    and bnd: "\<And>r. bindable m r"
  shows "\<forall>r\<in>set (created m ops db). next_id (tbl m db) \<le> pk m r"
proof (induction ops arbitrary: db)
  case Nil
  then show ?case by simp
next
  case (Cons a ops)
  show ?case
  proof (cases a)
    case (Create c)
    have "next_id (tbl m db) \<le> next_id (tbl m (snd (create_item db m c)))"
      by (simp add: create_item_tbl [OF lens bnd])
    with Cons.IH [of "snd (create_item db m c)"] Create show ?thesis
      by (auto simp: create_item_fst [OF bnd] pkc)
  next
    case (Delete i)
    have "next_id (tbl m (snd (delete_item db m i))) = next_id (tbl m db)"
      by (simp add: delete_item_tbl [OF lens])
    with Cons.IH [of "snd (delete_item db m i)"] Delete show ?thesis
      by simp
  qed
qed

lemma rows_run_ops:
  assumes lens: "\<And>t d. tbl m (put_tbl m t d) = t" and pkc: "\<And>c i. pk m (construct m c i) = i"
    and bnd: "\<And>r. bindable m r"
  shows "\<forall>r\<in>set (rows (tbl m db)). pk m r < next_id (tbl m db) \<Longrightarrow>
     rows (tbl m (run_ops m ops db)) =
       filter (\<lambda>r. pk m r \<notin> set (deleted m ops db)) (rows (tbl m db) @ created m ops db)"
proof (induction ops arbitrary: db)
  case Nil
  then show ?case by simp
next
  case (Cons a ops)
  show ?case
  proof (cases a)
    case (Create c)
    let ?db = "snd (create_item db m c)"
    have inv: "\<forall>r\<in>set (rows (tbl m ?db)). pk m r < next_id (tbl m ?db)"
      using Cons.prems by (auto simp: create_item_tbl [OF lens bnd] pkc)
    show ?thesis
      using Cons.IH [OF inv] Create
      by (simp add: create_item_tbl [OF lens bnd] create_item_fst [OF bnd])
  next
    case (Delete i)
    let ?db = "snd (delete_item db m i)"
    have inv: "\<forall>r\<in>set (rows (tbl m ?db)). pk m r < next_id (tbl m ?db)"
      using Cons.prems by (auto simp: delete_item_tbl [OF lens])
    have nid: "next_id (tbl m ?db) = next_id (tbl m db)"
      by (simp add: delete_item_tbl [OF lens])
    show ?thesis
    proof (cases "i \<in> set (map (pk m) (rows (tbl m db)))")
      case False
      then have "filter (\<lambda>r. pk m r \<noteq> i) (rows (tbl m db)) = rows (tbl m db)"
        by (auto simp: filter_id_conv)
      with Cons.IH [OF inv] Delete False show ?thesis
        by (simp add: delete_item_tbl [OF lens] delete_item_fst)
    next
      case True
      then have "i < next_id (tbl m db)" using Cons.prems by auto
      with created_fresh [OF lens pkc bnd, of ops ?db] nid
      have fresh: "\<forall>r\<in>set (created m ops ?db). pk m r \<noteq> i" by auto
      then have "filter (\<lambda>r. pk m r \<noteq> i \<and> pk m r \<notin> set (deleted m ops ?db)) (created m ops ?db)
          = filter (\<lambda>r. pk m r \<notin> set (deleted m ops ?db)) (created m ops ?db)"
        by (auto intro: filter_cong)
      with Cons.IH [OF inv] Delete True show ?thesis
        by (simp add: delete_item_tbl [OF lens] delete_item_fst conj_commute)
    qed
  qed
qed

subsection \<open>Reachable states\<close>

lemma run_invariant:
  assumes step: "\<And>req d. P d \<Longrightarrow> P (serve req d)" and init: "P db"
  shows "P (run reqs db)"
  using init by (induction reqs arbitrary: db) (simp_all add: step)

lemma serve_ids_ok_experience:
  "ids_ok ExperienceDB_model db \<Longrightarrow> ids_ok ExperienceDB_model (serve req db)"
  by (cases req)
     (auto simp: ids_ok_def model_defs store_defs handler_defs Let_def list_all_iff
           distinct_map_filter split: option.splits list.splits)

lemma serve_ids_ok_projects:
  "ids_ok ProjectDB_model db \<Longrightarrow> ids_ok ProjectDB_model (serve req db)"
  by (cases req)
     (auto simp: ids_ok_def model_defs store_defs handler_defs Let_def list_all_iff
           distinct_map_filter split: option.splits list.splits)

lemma serve_ids_ok_skills:
  "ids_ok SkillCategoryDB_model db \<Longrightarrow> ids_ok SkillCategoryDB_model (serve req db)"
  by (cases req)
     (auto simp: ids_ok_def model_defs store_defs handler_defs Let_def list_all_iff
           distinct_map_filter split: option.splits list.splits)

lemma serve_ids_ok_certifications:
  "ids_ok CertificationDB_model db \<Longrightarrow> ids_ok CertificationDB_model (serve req db)"
  by (cases req)
     (auto simp: ids_ok_def model_defs store_defs handler_defs Let_def list_all_iff
           distinct_map_filter split: option.splits list.splits)

lemma reachable_ids_ok:
  "ids_ok ExperienceDB_model (run reqs empty_db)"
  "ids_ok ProjectDB_model (run reqs empty_db)"
  "ids_ok SkillCategoryDB_model (run reqs empty_db)"
  "ids_ok CertificationDB_model (run reqs empty_db)"
proof -
  show "ids_ok ExperienceDB_model (run reqs empty_db)"
    by (rule run_invariant [where P = "ids_ok ExperienceDB_model"])
       (erule serve_ids_ok_experience,
        simp add: ids_ok_def empty_db_def empty_table_def ExperienceDB_model_def)
  show "ids_ok ProjectDB_model (run reqs empty_db)"
    by (rule run_invariant [where P = "ids_ok ProjectDB_model"])
       (erule serve_ids_ok_projects,
        simp add: ids_ok_def empty_db_def empty_table_def ProjectDB_model_def)
  show "ids_ok SkillCategoryDB_model (run reqs empty_db)"
    by (rule run_invariant [where P = "ids_ok SkillCategoryDB_model"])
       (erule serve_ids_ok_skills,
        simp add: ids_ok_def empty_db_def empty_table_def SkillCategoryDB_model_def)
  show "ids_ok CertificationDB_model (run reqs empty_db)"
    by (rule run_invariant [where P = "ids_ok CertificationDB_model"])
       (erule serve_ids_ok_certifications,
        simp add: ids_ok_def empty_db_def empty_table_def CertificationDB_model_def)
qed

subsection \<open>Evaluating the handlers on concrete requests\<close>

lemmas sample_defs = sample_profile_def other_profile_def stored_profile_def
  profile_stored_db_def sample_education_def
  other_education_def sample_experience_def sample_project_def sample_skill_def
  other_skill_def sample_certification_def

lemmas eval_defs = model_defs store_defs handler_defs sample_defs empty_db_def
  empty_table_def Let_def

subsection \<open>The collection endpoints\<close>

lemma remove1_drops_key:
  assumes "distinct (map f xs)" and "r \<in> set xs"
  shows "f r \<notin> set (map f (remove1 r xs))"
proof -
  have "remove1 r xs = filter (\<lambda>x. f x \<noteq> f r) xs"
    using assms by (simp add: filter_other_ids)
  then show ?thesis by auto
qed

lemma create_education_ok:
  assumes "create_education body db = (Inr r, db')"
  shows "get_education db' = Some r \<and>
     r = construct EducationDB_model body (next_id (education_tbl db))"
  using assms
  by (auto simp: create_education_def get_education_def find_first_def insert_row_def Let_def
        EducationDB_model_def split: list.splits if_splits)

lemma lens_experience:
  "tbl ExperienceDB_model (put_tbl ExperienceDB_model t d) = t"
  "pk ExperienceDB_model (construct ExperienceDB_model b i) = i"
  "bindable ExperienceDB_model r"
  by (simp_all add: ExperienceDB_model_def)

lemma delete_experience_missing:
  "i \<notin> set (map ExperienceDB.id' (get_all_experiences db)) \<Longrightarrow>
   delete_experience i db = (Inl (HTTPException 404 ''Item not found''), db)"
  using delete_item_missing [of i ExperienceDB_model db]
  by (simp add: delete_experience_def get_all_experiences_def ExperienceDB_model_def)

lemma delete_experience_found:
  assumes "ids_ok ExperienceDB_model db" and "r \<in> set (get_all_experiences db)"
  shows "delete_experience (ExperienceDB.id' r) db =
     (Inr ''Item deleted successfully'',
      db\<lparr>experience_tbl := (experience_tbl db)\<lparr>rows := remove1 r (rows (experience_tbl db))\<rparr>\<rparr>)"
    and "ExperienceDB.id' r \<notin> set (map ExperienceDB.id' (remove1 r (get_all_experiences db)))"
proof -
  from assms have r: "r \<in> set (get_items db ExperienceDB_model)"
    and d: "distinct (map (pk ExperienceDB_model) (get_items db ExperienceDB_model))"
    by (simp_all add: ids_ok_def get_all_experiences_def get_items_def find_all_def)
  from delete_item_found [OF r d]
  show "delete_experience (ExperienceDB.id' r) db =
     (Inr ''Item deleted successfully'',
      db\<lparr>experience_tbl := (experience_tbl db)\<lparr>rows := remove1 r (rows (experience_tbl db))\<rparr>\<rparr>)"
    by (simp add: delete_experience_def ExperienceDB_model_def)
  from remove1_drops_key [OF d r]
  show "ExperienceDB.id' r \<notin> set (map ExperienceDB.id' (remove1 r (get_all_experiences db)))"
    by (simp add: get_all_experiences_def ExperienceDB_model_def)
qed

lemma delete_experience_reachable:
  assumes "db = run reqs empty_db \<and> r \<in> set (get_all_experiences db)"
  shows "delete_experience (ExperienceDB.id' r) db =
        (Inr ''Item deleted successfully'',
         db\<lparr>experience_tbl := (experience_tbl db)\<lparr>rows := remove1 r (rows (experience_tbl db))\<rparr>\<rparr>) \<and>
      get_all_experiences (snd (delete_experience (ExperienceDB.id' r) db)) = remove1 r (get_all_experiences db) \<and>
      ExperienceDB.id' r \<notin> set (map ExperienceDB.id' (get_all_experiences (snd (delete_experience (ExperienceDB.id' r) db))))"
proof -
  from assms have ok: "ids_ok ExperienceDB_model db" and m: "r \<in> set (get_all_experiences db)"
    using reachable_ids_ok [of reqs] by auto
  from delete_experience_found [OF ok m] show ?thesis
    by (simp add: get_all_experiences_def get_items_def find_all_def ExperienceDB_model_def)
qed

lemma add_experience_ok:
  assumes "add_experience body db = (Inr r, db')"
  shows "get_all_experiences db' = get_all_experiences db @ [r] \<and>
     r = construct ExperienceDB_model body (next_id (experience_tbl db))"
  using assms
  by (auto simp: add_experience_def get_all_experiences_def create_item_def get_items_def find_all_def
        insert_row_def Let_def ExperienceDB_model_def split: if_splits)

lemma list_experience_after_ops:
  "get_all_experiences (run_ops ExperienceDB_model ops (run reqs empty_db)) =
     filter (\<lambda>r. ExperienceDB.id' r \<notin> set (deleted ExperienceDB_model ops (run reqs empty_db)))
       (get_all_experiences (run reqs empty_db) @ created ExperienceDB_model ops (run reqs empty_db))"
proof -
  have "\<forall>r\<in>set (rows (tbl ExperienceDB_model (run reqs empty_db))).
      pk ExperienceDB_model r < next_id (tbl ExperienceDB_model (run reqs empty_db))"
    using reachable_ids_ok [of reqs] by (simp add: ids_ok_def list_all_iff)
  from rows_run_ops [of ExperienceDB_model, OF lens_experience this, of ops]
  have "rows (tbl ExperienceDB_model (run_ops ExperienceDB_model ops (run reqs empty_db))) =
     filter (\<lambda>r. pk ExperienceDB_model r \<notin> set (deleted ExperienceDB_model ops (run reqs empty_db)))
       (rows (tbl ExperienceDB_model (run reqs empty_db)) @ created ExperienceDB_model ops (run reqs empty_db))" .
  moreover have "pk ExperienceDB_model = ExperienceDB.id'" "tbl ExperienceDB_model = experience_tbl"
    by (simp_all add: ExperienceDB_model_def)
  ultimately show ?thesis
    by (simp add: get_all_experiences_def get_items_def find_all_def)
qed

lemma lens_projects:
  "tbl ProjectDB_model (put_tbl ProjectDB_model t d) = t"
  "pk ProjectDB_model (construct ProjectDB_model b i) = i"
  "bindable ProjectDB_model r"
  by (simp_all add: ProjectDB_model_def)

lemma delete_project_missing:
  "i \<notin> set (map ProjectDB.id' (get_all_projects db)) \<Longrightarrow>
   delete_project i db = (Inl (HTTPException 404 ''Item not found''), db)"
  using delete_item_missing [of i ProjectDB_model db]
  by (simp add: delete_project_def get_all_projects_def ProjectDB_model_def)

lemma delete_project_found:
  assumes "ids_ok ProjectDB_model db" and "r \<in> set (get_all_projects db)"
  shows "delete_project (ProjectDB.id' r) db =
     (Inr ''Item deleted successfully'',
      db\<lparr>projects_tbl := (projects_tbl db)\<lparr>rows := remove1 r (rows (projects_tbl db))\<rparr>\<rparr>)"
    and "ProjectDB.id' r \<notin> set (map ProjectDB.id' (remove1 r (get_all_projects db)))"
proof -
  from assms have r: "r \<in> set (get_items db ProjectDB_model)"
    and d: "distinct (map (pk ProjectDB_model) (get_items db ProjectDB_model))"
    by (simp_all add: ids_ok_def get_all_projects_def get_items_def find_all_def)
  from delete_item_found [OF r d]
  show "delete_project (ProjectDB.id' r) db =
     (Inr ''Item deleted successfully'',
      db\<lparr>projects_tbl := (projects_tbl db)\<lparr>rows := remove1 r (rows (projects_tbl db))\<rparr>\<rparr>)"
    by (simp add: delete_project_def ProjectDB_model_def)
  from remove1_drops_key [OF d r]
  show "ProjectDB.id' r \<notin> set (map ProjectDB.id' (remove1 r (get_all_projects db)))"
    by (simp add: get_all_projects_def ProjectDB_model_def)
qed

lemma delete_project_reachable:
  assumes "db = run reqs empty_db \<and> r \<in> set (get_all_projects db)"
  shows "delete_project (ProjectDB.id' r) db =
        (Inr ''Item deleted successfully'',
         db\<lparr>projects_tbl := (projects_tbl db)\<lparr>rows := remove1 r (rows (projects_tbl db))\<rparr>\<rparr>) \<and>
      get_all_projects (snd (delete_project (ProjectDB.id' r) db)) = remove1 r (get_all_projects db) \<and>
      ProjectDB.id' r \<notin> set (map ProjectDB.id' (get_all_projects (snd (delete_project (ProjectDB.id' r) db))))"
proof -
  from assms have ok: "ids_ok ProjectDB_model db" and m: "r \<in> set (get_all_projects db)"
    using reachable_ids_ok [of reqs] by auto
  from delete_project_found [OF ok m] show ?thesis
    by (simp add: get_all_projects_def get_items_def find_all_def ProjectDB_model_def)
qed

lemma add_project_ok:
  assumes "add_project body db = (Inr r, db')"
  shows "get_all_projects db' = get_all_projects db @ [r] \<and>
     r = construct ProjectDB_model body (next_id (projects_tbl db))"
  using assms
  by (auto simp: add_project_def get_all_projects_def create_item_def get_items_def find_all_def
        insert_row_def Let_def ProjectDB_model_def split: if_splits)

lemma list_projects_after_ops:
  "get_all_projects (run_ops ProjectDB_model ops (run reqs empty_db)) =
     filter (\<lambda>r. ProjectDB.id' r \<notin> set (deleted ProjectDB_model ops (run reqs empty_db)))
       (get_all_projects (run reqs empty_db) @ created ProjectDB_model ops (run reqs empty_db))"
proof -
  have "\<forall>r\<in>set (rows (tbl ProjectDB_model (run reqs empty_db))).
      pk ProjectDB_model r < next_id (tbl ProjectDB_model (run reqs empty_db))"
    using reachable_ids_ok [of reqs] by (simp add: ids_ok_def list_all_iff)
  from rows_run_ops [of ProjectDB_model, OF lens_projects this, of ops]
  have "rows (tbl ProjectDB_model (run_ops ProjectDB_model ops (run reqs empty_db))) =
     filter (\<lambda>r. pk ProjectDB_model r \<notin> set (deleted ProjectDB_model ops (run reqs empty_db)))
       (rows (tbl ProjectDB_model (run reqs empty_db)) @ created ProjectDB_model ops (run reqs empty_db))" .
  moreover have "pk ProjectDB_model = ProjectDB.id'" "tbl ProjectDB_model = projects_tbl"
    by (simp_all add: ProjectDB_model_def)
  ultimately show ?thesis
    by (simp add: get_all_projects_def get_items_def find_all_def)
qed

lemma lens_skills:
  "tbl SkillCategoryDB_model (put_tbl SkillCategoryDB_model t d) = t"
  "pk SkillCategoryDB_model (construct SkillCategoryDB_model b i) = i"
  "bindable SkillCategoryDB_model r"
  by (simp_all add: SkillCategoryDB_model_def)

lemma delete_skill_category_missing:
  "i \<notin> set (map SkillCategoryDB.id' (get_all_skill_categories db)) \<Longrightarrow>
   delete_skill_category i db = (Inl (HTTPException 404 ''Item not found''), db)"
  using delete_item_missing [of i SkillCategoryDB_model db]
  by (simp add: delete_skill_category_def get_all_skill_categories_def SkillCategoryDB_model_def)

lemma delete_skill_category_found:
  assumes "ids_ok SkillCategoryDB_model db" and "r \<in> set (get_all_skill_categories db)"
  shows "delete_skill_category (SkillCategoryDB.id' r) db =
     (Inr ''Item deleted successfully'',
      db\<lparr>skill_categories_tbl := (skill_categories_tbl db)\<lparr>rows := remove1 r (rows (skill_categories_tbl db))\<rparr>\<rparr>)"
    and "SkillCategoryDB.id' r \<notin> set (map SkillCategoryDB.id' (remove1 r (get_all_skill_categories db)))"
proof -
  from assms have r: "r \<in> set (get_items db SkillCategoryDB_model)"
    and d: "distinct (map (pk SkillCategoryDB_model) (get_items db SkillCategoryDB_model))"
    by (simp_all add: ids_ok_def get_all_skill_categories_def get_items_def find_all_def)
  from delete_item_found [OF r d]
  show "delete_skill_category (SkillCategoryDB.id' r) db =
     (Inr ''Item deleted successfully'',
      db\<lparr>skill_categories_tbl := (skill_categories_tbl db)\<lparr>rows := remove1 r (rows (skill_categories_tbl db))\<rparr>\<rparr>)"
    by (simp add: delete_skill_category_def SkillCategoryDB_model_def)
  from remove1_drops_key [OF d r]
  show "SkillCategoryDB.id' r \<notin> set (map SkillCategoryDB.id' (remove1 r (get_all_skill_categories db)))"
    by (simp add: get_all_skill_categories_def SkillCategoryDB_model_def)
qed

lemma delete_skill_category_reachable:
  assumes "db = run reqs empty_db \<and> r \<in> set (get_all_skill_categories db)"
  shows "delete_skill_category (SkillCategoryDB.id' r) db =
        (Inr ''Item deleted successfully'',
         db\<lparr>skill_categories_tbl := (skill_categories_tbl db)\<lparr>rows := remove1 r (rows (skill_categories_tbl db))\<rparr>\<rparr>) \<and>
      get_all_skill_categories (snd (delete_skill_category (SkillCategoryDB.id' r) db)) = remove1 r (get_all_skill_categories db) \<and>
      SkillCategoryDB.id' r \<notin> set (map SkillCategoryDB.id' (get_all_skill_categories (snd (delete_skill_category (SkillCategoryDB.id' r) db))))"
proof -
  from assms have ok: "ids_ok SkillCategoryDB_model db" and m: "r \<in> set (get_all_skill_categories db)"
    using reachable_ids_ok [of reqs] by auto
  from delete_skill_category_found [OF ok m] show ?thesis
    by (simp add: get_all_skill_categories_def get_items_def find_all_def SkillCategoryDB_model_def)
qed

lemma add_skill_category_ok:
  assumes "add_skill_category body db = (Inr r, db')"
  shows "get_all_skill_categories db' = get_all_skill_categories db @ [r] \<and>
     r = construct SkillCategoryDB_model body (next_id (skill_categories_tbl db))"
  using assms
  by (auto simp: add_skill_category_def get_all_skill_categories_def create_item_def get_items_def find_all_def
        insert_row_def Let_def SkillCategoryDB_model_def split: if_splits)

lemma list_skills_after_ops:
  "get_all_skill_categories (run_ops SkillCategoryDB_model ops (run reqs empty_db)) =
     filter (\<lambda>r. SkillCategoryDB.id' r \<notin> set (deleted SkillCategoryDB_model ops (run reqs empty_db)))
       (get_all_skill_categories (run reqs empty_db) @ created SkillCategoryDB_model ops (run reqs empty_db))"
proof -
  have "\<forall>r\<in>set (rows (tbl SkillCategoryDB_model (run reqs empty_db))).
      pk SkillCategoryDB_model r < next_id (tbl SkillCategoryDB_model (run reqs empty_db))"
    using reachable_ids_ok [of reqs] by (simp add: ids_ok_def list_all_iff)
  from rows_run_ops [of SkillCategoryDB_model, OF lens_skills this, of ops]
  have "rows (tbl SkillCategoryDB_model (run_ops SkillCategoryDB_model ops (run reqs empty_db))) =
     filter (\<lambda>r. pk SkillCategoryDB_model r \<notin> set (deleted SkillCategoryDB_model ops (run reqs empty_db)))
       (rows (tbl SkillCategoryDB_model (run reqs empty_db)) @ created SkillCategoryDB_model ops (run reqs empty_db))" .
  moreover have "pk SkillCategoryDB_model = SkillCategoryDB.id'" "tbl SkillCategoryDB_model = skill_categories_tbl"
    by (simp_all add: SkillCategoryDB_model_def)
  ultimately show ?thesis
    by (simp add: get_all_skill_categories_def get_items_def find_all_def)
qed

lemma lens_certifications:
  "tbl CertificationDB_model (put_tbl CertificationDB_model t d) = t"
  "pk CertificationDB_model (construct CertificationDB_model b i) = i"
  "bindable CertificationDB_model r"
  by (simp_all add: CertificationDB_model_def)

lemma delete_certification_missing:
  "i \<notin> set (map CertificationDB.id' (get_all_certifications db)) \<Longrightarrow>
   delete_certification i db = (Inl (HTTPException 404 ''Item not found''), db)"
  using delete_item_missing [of i CertificationDB_model db]
  by (simp add: delete_certification_def get_all_certifications_def CertificationDB_model_def)

lemma delete_certification_found:
  assumes "ids_ok CertificationDB_model db" and "r \<in> set (get_all_certifications db)"
  shows "delete_certification (CertificationDB.id' r) db =
     (Inr ''Item deleted successfully'',
      db\<lparr>certifications_tbl := (certifications_tbl db)\<lparr>rows := remove1 r (rows (certifications_tbl db))\<rparr>\<rparr>)"
    and "CertificationDB.id' r \<notin> set (map CertificationDB.id' (remove1 r (get_all_certifications db)))"
proof -
  from assms have r: "r \<in> set (get_items db CertificationDB_model)"
    and d: "distinct (map (pk CertificationDB_model) (get_items db CertificationDB_model))"
    by (simp_all add: ids_ok_def get_all_certifications_def get_items_def find_all_def)
  from delete_item_found [OF r d]
  show "delete_certification (CertificationDB.id' r) db =
     (Inr ''Item deleted successfully'',
      db\<lparr>certifications_tbl := (certifications_tbl db)\<lparr>rows := remove1 r (rows (certifications_tbl db))\<rparr>\<rparr>)"
    by (simp add: delete_certification_def CertificationDB_model_def)
  from remove1_drops_key [OF d r]
  show "CertificationDB.id' r \<notin> set (map CertificationDB.id' (remove1 r (get_all_certifications db)))"
    by (simp add: get_all_certifications_def CertificationDB_model_def)
qed

lemma delete_certification_reachable:
  assumes "db = run reqs empty_db \<and> r \<in> set (get_all_certifications db)"
  shows "delete_certification (CertificationDB.id' r) db =
        (Inr ''Item deleted successfully'',
         db\<lparr>certifications_tbl := (certifications_tbl db)\<lparr>rows := remove1 r (rows (certifications_tbl db))\<rparr>\<rparr>) \<and>
      get_all_certifications (snd (delete_certification (CertificationDB.id' r) db)) = remove1 r (get_all_certifications db) \<and>
      CertificationDB.id' r \<notin> set (map CertificationDB.id' (get_all_certifications (snd (delete_certification (CertificationDB.id' r) db))))"
proof -
  from assms have ok: "ids_ok CertificationDB_model db" and m: "r \<in> set (get_all_certifications db)"
    using reachable_ids_ok [of reqs] by auto
  from delete_certification_found [OF ok m] show ?thesis
    by (simp add: get_all_certifications_def get_items_def find_all_def CertificationDB_model_def)
qed

lemma add_certification_ok:
  assumes "add_certification body db = (Inr r, db')"
  shows "get_all_certifications db' = get_all_certifications db @ [r] \<and>
     r = construct CertificationDB_model body (next_id (certifications_tbl db))"
  using assms
  by (auto simp: add_certification_def get_all_certifications_def create_item_def get_items_def find_all_def
        insert_row_def Let_def CertificationDB_model_def split: if_splits)

lemma list_certifications_after_ops:
  "get_all_certifications (run_ops CertificationDB_model ops (run reqs empty_db)) =
     filter (\<lambda>r. CertificationDB.id' r \<notin> set (deleted CertificationDB_model ops (run reqs empty_db)))
       (get_all_certifications (run reqs empty_db) @ created CertificationDB_model ops (run reqs empty_db))"
proof -
  have "\<forall>r\<in>set (rows (tbl CertificationDB_model (run reqs empty_db))).
      pk CertificationDB_model r < next_id (tbl CertificationDB_model (run reqs empty_db))"
    using reachable_ids_ok [of reqs] by (simp add: ids_ok_def list_all_iff)
  from rows_run_ops [of CertificationDB_model, OF lens_certifications this, of ops]
  have "rows (tbl CertificationDB_model (run_ops CertificationDB_model ops (run reqs empty_db))) =
     filter (\<lambda>r. pk CertificationDB_model r \<notin> set (deleted CertificationDB_model ops (run reqs empty_db)))
       (rows (tbl CertificationDB_model (run reqs empty_db)) @ created CertificationDB_model ops (run reqs empty_db))" .
  moreover have "pk CertificationDB_model = CertificationDB.id'" "tbl CertificationDB_model = certifications_tbl"
    by (simp_all add: CertificationDB_model_def)
  ultimately show ?thesis
    by (simp add: get_all_certifications_def get_items_def find_all_def)
qed

lemma run_sample_requests:
  "run sample_requests empty_db =
     \<lparr>profile_tbl = \<lparr>rows = [], next_id = 1\<rparr>,
      education_tbl = \<lparr>rows = [construct EducationDB_model sample_education 1], next_id = 2\<rparr>,
      experience_tbl = \<lparr>rows = [construct ExperienceDB_model sample_experience 1,
         construct ExperienceDB_model sample_experience 2], next_id = 3\<rparr>,
      projects_tbl = \<lparr>rows = [construct ProjectDB_model sample_project 1,
         construct ProjectDB_model sample_project 2], next_id = 3\<rparr>,
      skill_categories_tbl = \<lparr>rows = [construct SkillCategoryDB_model sample_skill 1,
         construct SkillCategoryDB_model third_skill 2], next_id = 3\<rparr>,
      certifications_tbl = \<lparr>rows = [construct CertificationDB_model sample_certification 1,
         construct CertificationDB_model sample_certification 2], next_id = 3\<rparr>\<rparr>"
  by (simp add: sample_requests_def third_skill_def eval_defs del: set_filter)

lemma create_then_read_other_kinds:
  "(create_education education db = (Inr e, db_e) \<longrightarrow>
      get_education db_e = Some e \<and> EducationDB.id' e = next_id (education_tbl db) \<and>
      EducationDB.institution e = EducationCreate.institution education \<and>
      EducationDB.degree e = EducationCreate.degree education \<and>
      EducationDB.cgpa e = EducationCreate.cgpa education \<and>
      EducationDB.duration e = EducationCreate.duration education \<and>
      EducationDB.location e = EducationCreate.location education) \<and>
   (add_experience experience db = (Inr x, db_x) \<longrightarrow>
      get_all_experiences db_x = get_all_experiences db @ [x] \<and>
      ExperienceDB.id' x = next_id (experience_tbl db) \<and>
      ExperienceDB.company x = ExperienceCreate.company experience \<and>
      ExperienceDB.role x = ExperienceCreate.role experience \<and>
      ExperienceDB.duration x = ExperienceCreate.duration experience \<and>
      ExperienceDB.description x = ExperienceCreate.description experience) \<and>
   (add_project project db = (Inr j, db_j) \<longrightarrow>
      get_all_projects db_j = get_all_projects db @ [j] \<and>
      ProjectDB.id' j = next_id (projects_tbl db) \<and>
      ProjectDB.title j = ProjectCreate.title project \<and>
      ProjectDB.technologies j = ProjectCreate.technologies project \<and>
      ProjectDB.description j = ProjectCreate.description project) \<and>
   (add_skill_category skill db = (Inr k, db_k) \<longrightarrow>
      get_all_skill_categories db_k = get_all_skill_categories db @ [k] \<and>
      SkillCategoryDB.id' k = next_id (skill_categories_tbl db) \<and>
      SkillCategoryDB.category_name k = SkillCategoryCreate.category_name skill \<and>
      SkillCategoryDB.skills k = SkillCategoryCreate.skills skill) \<and>
   (add_certification cert db = (Inr c, db_c) \<longrightarrow>
      get_all_certifications db_c = get_all_certifications db @ [c] \<and>
      CertificationDB.id' c = next_id (certifications_tbl db) \<and>
      CertificationDB.issuer c = CertificationCreate.issuer cert \<and>
      CertificationDB.title c = CertificationCreate.title cert)"
proof -
  have c2: "create_education education db = (Inr e, db_e) \<longrightarrow>
      get_education db_e = Some e \<and> EducationDB.id' e = next_id (education_tbl db) \<and>
      EducationDB.institution e = EducationCreate.institution education \<and>
      EducationDB.degree e = EducationCreate.degree education \<and>
      EducationDB.cgpa e = EducationCreate.cgpa education \<and>
      EducationDB.duration e = EducationCreate.duration education \<and>
      EducationDB.location e = EducationCreate.location education"
    by (auto dest!: create_education_ok simp: EducationDB_model_def)
  have c3: "add_experience experience db = (Inr x, db_x) \<longrightarrow>
      get_all_experiences db_x = get_all_experiences db @ [x] \<and>
      ExperienceDB.id' x = next_id (experience_tbl db) \<and>
      ExperienceDB.company x = ExperienceCreate.company experience \<and>
      ExperienceDB.role x = ExperienceCreate.role experience \<and>
      ExperienceDB.duration x = ExperienceCreate.duration experience \<and>
      ExperienceDB.description x = ExperienceCreate.description experience"
    by (auto dest!: add_experience_ok simp: ExperienceDB_model_def)
  have c4: "add_project project db = (Inr j, db_j) \<longrightarrow>
      get_all_projects db_j = get_all_projects db @ [j] \<and>
      ProjectDB.id' j = next_id (projects_tbl db) \<and>
      ProjectDB.title j = ProjectCreate.title project \<and>
      ProjectDB.technologies j = ProjectCreate.technologies project \<and>
      ProjectDB.description j = ProjectCreate.description project"
    by (auto dest!: add_project_ok simp: ProjectDB_model_def)
  have c5: "add_skill_category skill db = (Inr k, db_k) \<longrightarrow>
      get_all_skill_categories db_k = get_all_skill_categories db @ [k] \<and>
      SkillCategoryDB.id' k = next_id (skill_categories_tbl db) \<and>
      SkillCategoryDB.category_name k = SkillCategoryCreate.category_name skill \<and>
      SkillCategoryDB.skills k = SkillCategoryCreate.skills skill"
    by (auto dest!: add_skill_category_ok simp: SkillCategoryDB_model_def)
  have c6: "add_certification cert db = (Inr c, db_c) \<longrightarrow>
      get_all_certifications db_c = get_all_certifications db @ [c] \<and>
      CertificationDB.id' c = next_id (certifications_tbl db) \<and>
      CertificationDB.issuer c = CertificationCreate.issuer cert \<and>
      CertificationDB.title c = CertificationCreate.title cert"
    by (auto dest!: add_certification_ok simp: CertificationDB_model_def)
  from c2 c3 c4 c5 c6 show ?thesis by blast
qed

section \<open>The claims\<close>

text \<open>
  C1. Starting from the empty store, after every prefix of every sequence of requests
  the profile table and the education table hold at most one row each.
\<close>

theorem singletons_hold_at_most_one_row:
  "length (rows (profile_tbl (run (take n reqs) empty_db))) \<le> 1 \<and>
   length (rows (education_tbl (run (take n reqs) empty_db))) \<le> 1"
  by (rule reachable_singletons)

theorem singletons_hold_at_most_one_row_witness:
  "length (rows (profile_tbl (run (take 3
      [POST_profile sample_profile, POST_profile other_profile,
       POST_education sample_education, POST_education other_education]) empty_db))) \<le> 1 \<and>
   length (rows (education_tbl (run (take 3
      [POST_profile sample_profile, POST_profile other_profile,
       POST_education sample_education, POST_education other_education]) empty_db))) \<le> 1"
  by (rule singletons_hold_at_most_one_row)

text \<open>
  C9. A singleton that is present stays present under every sequence of requests; in
  particular the row inserted by a successful create of the profile or of the education
  entry is never removed again.
\<close>

theorem singleton_stays_present:
  "(get_profile db \<noteq> None \<longrightarrow> get_profile (run reqs db) \<noteq> None) \<and>
   (get_education db \<noteq> None \<longrightarrow> get_education (run reqs db) \<noteq> None) \<and>
   (fst (create_profile profile db) = Inr p \<longrightarrow>
      get_profile (run reqs (snd (create_profile profile db))) \<noteq> None) \<and>
   (fst (create_education education db) = Inr e \<longrightarrow>
      get_education (run reqs (snd (create_education education db))) \<noteq> None)"
proof (intro conjI impI)
  assume "get_profile db \<noteq> None"
  then show "get_profile (run reqs db) \<noteq> None"
    by (simp add: get_profile_None_iff run_present_profile)
next
  assume "get_education db \<noteq> None"
  then show "get_education (run reqs db) \<noteq> None"
    by (simp add: get_education_None_iff run_present_education)
next
  assume "fst (create_profile profile db) = Inr p"
  with create_profile_never_succeeds [of profile db p]
  show "get_profile (run reqs (snd (create_profile profile db))) \<noteq> None"
    by simp
next
  assume ok: "fst (create_education education db) = Inr e"
  have "get_education db = None"
  proof (rule ccontr)
    assume "get_education db \<noteq> None"
    from create_education_present [OF this, of education] ok show False by simp
  qed
  then have "rows (education_tbl (snd (create_education education db))) \<noteq> []"
    by (simp add: create_education_absent)
  then show "get_education (run reqs (snd (create_education education db))) \<noteq> None"
    by (simp add: get_education_None_iff run_present_education)
qed

theorem singleton_stays_present_witness:
  "get_profile profile_stored_db \<noteq> None \<and>
   get_profile (run [PUT_profile other_profile, POST_profile other_profile, PUT_education other_education,
      DELETE_experience 1] profile_stored_db) \<noteq> None \<and>
   fst (create_education sample_education empty_db) =
     Inr (construct EducationDB_model sample_education 1) \<and>
   get_education (snd (create_education sample_education empty_db)) \<noteq> None \<and>
   get_education (run [PUT_profile other_profile, POST_profile other_profile, PUT_education other_education,
      DELETE_experience 1] (snd (create_education sample_education empty_db))) \<noteq> None"
  using singleton_stays_present [of profile_stored_db
      "[PUT_profile other_profile, POST_profile other_profile, PUT_education other_education,
      DELETE_experience 1]"
      sample_profile stored_profile
      sample_education "construct EducationDB_model sample_education 1"]
    singleton_stays_present [of "snd (create_education sample_education empty_db)"
      "[PUT_profile other_profile, POST_profile other_profile, PUT_education other_education,
      DELETE_experience 1]"
      sample_profile stored_profile
      sample_education "construct EducationDB_model sample_education 1"]
    singleton_stays_present [of empty_db
      "[PUT_profile other_profile, POST_profile other_profile, PUT_education other_education,
      DELETE_experience 1]"
      sample_profile stored_profile
      sample_education "construct EducationDB_model sample_education 1"]
  by (simp add: eval_defs del: set_filter)

text \<open>
  C2. On the empty store, the create of a profile with a valid body does not succeed:
  the dumped URL objects cannot be sent as values of the string columns, the commit
  raises, the client is answered 500 and the profile stays absent. (The create of an
  education entry and the 400 answers are as claimed: \<open>create_education_absent\<close>,
  \<open>create_profile_present\<close>, \<open>create_education_present\<close>; the failure
  is the same for every body and every state without a profile:
  \<open>create_profile_absent\<close>.)
\<close>

theorem create_profile_raises_at_commit:
  "get_profile empty_db = None \<and>
   create_profile
       \<lparr>ProfileCreate.name = ''A'', phone = ''1'', email = ''a@x.com'',
        linkedin_url = HttpUrl ''https://li.com/a'',
        github_url = HttpUrl ''https://gh.com/a'', portfolio_url = None\<rparr>
       empty_db = (Inl ProgrammingError, empty_db) \<and>
   status_code (fst (create_profile
       \<lparr>ProfileCreate.name = ''A'', phone = ''1'', email = ''a@x.com'',
        linkedin_url = HttpUrl ''https://li.com/a'',
        github_url = HttpUrl ''https://gh.com/a'', portfolio_url = None\<rparr>
       empty_db)) = 500 \<and>
   get_profile (snd (create_profile
       \<lparr>ProfileCreate.name = ''A'', phone = ''1'', email = ''a@x.com'',
        linkedin_url = HttpUrl ''https://li.com/a'',
        github_url = HttpUrl ''https://gh.com/a'', portfolio_url = None\<rparr>
       empty_db)) = None"
  by (simp add: eval_defs del: set_filter)

text \<open>
  C3. With a profile row stored, the update of the profile with a valid body does not
  succeed: the URL objects set on the loaded row cannot be sent as values of the string
  columns, the commit raises, the client is answered 500 and the stored row is as
  before. (The 404 answers and the update of an education entry are as claimed:
  \<open>update_profile_absent\<close>, \<open>update_education_absent\<close>,
  \<open>update_education_single\<close>; the failure is the same for every body and every
  state with a profile: \<open>update_profile_present\<close>.)
\<close>

theorem update_profile_raises_at_commit:
  "get_profile profile_stored_db =
     Some \<lparr>ProfileDB.id' = 1, name = ''A'', phone = ''1'', email = ''a@x.com'',
        linkedin_url = Str ''https://li.com/a'', github_url = Str ''https://gh.com/a'',
        portfolio_url = None\<rparr> \<and>
   update_profile
       \<lparr>ProfileCreate.name = ''B'', phone = ''2'', email = ''b@x.com'',
        linkedin_url = HttpUrl ''https://li.com/b'',
        github_url = HttpUrl ''https://gh.com/b'',
        portfolio_url = Some (HttpUrl ''https://b.dev/'')\<rparr>
       profile_stored_db = (Inl ProgrammingError, profile_stored_db) \<and>
   status_code (fst (update_profile
       \<lparr>ProfileCreate.name = ''B'', phone = ''2'', email = ''b@x.com'',
        linkedin_url = HttpUrl ''https://li.com/b'',
        github_url = HttpUrl ''https://gh.com/b'',
        portfolio_url = Some (HttpUrl ''https://b.dev/'')\<rparr>
       profile_stored_db)) = 500"
  by (simp add: eval_defs del: set_filter)

text \<open>
  C4. With the singleton row present, updating a second time with the same body gives the
  same result and the same database as updating once.
\<close>

theorem update_singleton_idempotent:
  "(get_profile db \<noteq> None \<longrightarrow>
      update_profile profile (snd (update_profile profile db)) = update_profile profile db) \<and>
   (get_education db \<noteq> None \<longrightarrow>
      update_education education (snd (update_education education db)) =
        update_education education db)"
  by (simp add: update_profile_twice update_education_twice)

theorem update_singleton_idempotent_witness:
  "get_profile (run [POST_education sample_education] profile_stored_db) \<noteq> None \<and>
   update_profile other_profile (snd (update_profile other_profile
     (run [POST_education sample_education] profile_stored_db))) =
   update_profile other_profile (run [POST_education sample_education] profile_stored_db) \<and>
   get_education (run [POST_education sample_education] profile_stored_db) \<noteq> None \<and>
   update_education other_education (snd (update_education other_education
     (run [POST_education sample_education] profile_stored_db))) =
   update_education other_education (run [POST_education sample_education] profile_stored_db) \<and>
   fst (update_education other_education (run [POST_education sample_education] profile_stored_db)) =
     Inr (construct EducationDB_model other_education 1)"
  using update_singleton_idempotent
    [of "run [POST_education sample_education] profile_stored_db" other_profile other_education]
  by (simp add: eval_defs del: set_filter)

text \<open>
  C10. A successful update of a singleton returns and stores a row whose identifier is the
  identifier of the row found before the update, and the identifiers in the table are
  the same as before.
\<close>

theorem update_singleton_keeps_id:
  "(get_profile db = Some old_p \<and> update_profile profile db = (Inr p, db1) \<longrightarrow>
      ProfileDB.id' p = ProfileDB.id' old_p \<and> get_profile db1 = Some p \<and>
      map ProfileDB.id' (rows (profile_tbl db1)) = map ProfileDB.id' (rows (profile_tbl db))) \<and>
   (get_education db = Some old_e \<and> update_education education db = (Inr e, db2) \<longrightarrow>
      EducationDB.id' e = EducationDB.id' old_e \<and> get_education db2 = Some e \<and>
      map EducationDB.id' (rows (education_tbl db2)) =
        map EducationDB.id' (rows (education_tbl db)))"
  using update_profile_id [of db old_p profile p db1]
    update_education_id [of db old_e education e db2]
  by blast

theorem update_singleton_keeps_id_witness:
  "get_education (run [POST_education sample_education] profile_stored_db) =
     Some (construct EducationDB_model sample_education 1) \<and>
   fst (update_education other_education (run [POST_education sample_education] profile_stored_db)) =
     Inr (construct EducationDB_model other_education 1) \<and>
   EducationDB.id' (construct EducationDB_model other_education 1) =
     EducationDB.id' (construct EducationDB_model sample_education 1) \<and>
   get_education (snd (update_education other_education (run [POST_education sample_education] profile_stored_db))) =
     Some (construct EducationDB_model other_education 1)"
  using update_singleton_keeps_id
    [of "run [POST_education sample_education] profile_stored_db"
      stored_profile other_profile stored_profile "run [POST_education sample_education] profile_stored_db"
      "construct EducationDB_model sample_education 1" other_education
      "construct EducationDB_model other_education 1"
      "snd (update_education other_education (run [POST_education sample_education] profile_stored_db))"]
  by (simp add: eval_defs del: set_filter)


text \<open>
  C6. For each collection, deleting an identifier that no row carries answers 404 and
  returns the database as it was. In every state reached from the empty store, deleting
  the identifier of a listed row succeeds, changes the database only by removing that
  row from its table, and the list afterwards holds no row with that identifier.
\<close>

theorem delete_collection_item:
  "(ix \<notin> set (map ExperienceDB.id' (get_all_experiences db)) \<longrightarrow>
      delete_experience ix db = (Inl (HTTPException 404 ''Item not found''), db) \<and>
      status_code (fst (delete_experience ix db)) = 404) \<and>
   (db = run reqs empty_db \<and> x \<in> set (get_all_experiences db) \<longrightarrow>
      delete_experience (ExperienceDB.id' x) db =
        (Inr ''Item deleted successfully'',
         db\<lparr>experience_tbl := (experience_tbl db)\<lparr>rows := remove1 x (rows (experience_tbl db))\<rparr>\<rparr>) \<and>
      get_all_experiences (snd (delete_experience (ExperienceDB.id' x) db)) = remove1 x (get_all_experiences db) \<and>
      ExperienceDB.id' x \<notin> set (map ExperienceDB.id' (get_all_experiences (snd (delete_experience (ExperienceDB.id' x) db))))) \<and>
   (ij \<notin> set (map ProjectDB.id' (get_all_projects db)) \<longrightarrow>
      delete_project ij db = (Inl (HTTPException 404 ''Item not found''), db) \<and>
      status_code (fst (delete_project ij db)) = 404) \<and>
   (db = run reqs empty_db \<and> j \<in> set (get_all_projects db) \<longrightarrow>
      delete_project (ProjectDB.id' j) db =
        (Inr ''Item deleted successfully'',
         db\<lparr>projects_tbl := (projects_tbl db)\<lparr>rows := remove1 j (rows (projects_tbl db))\<rparr>\<rparr>) \<and>
      get_all_projects (snd (delete_project (ProjectDB.id' j) db)) = remove1 j (get_all_projects db) \<and>
      ProjectDB.id' j \<notin> set (map ProjectDB.id' (get_all_projects (snd (delete_project (ProjectDB.id' j) db))))) \<and>
   (ik \<notin> set (map SkillCategoryDB.id' (get_all_skill_categories db)) \<longrightarrow>
      delete_skill_category ik db = (Inl (HTTPException 404 ''Item not found''), db) \<and>
      status_code (fst (delete_skill_category ik db)) = 404) \<and>
   (db = run reqs empty_db \<and> k \<in> set (get_all_skill_categories db) \<longrightarrow>
      delete_skill_category (SkillCategoryDB.id' k) db =
        (Inr ''Item deleted successfully'',
         db\<lparr>skill_categories_tbl := (skill_categories_tbl db)\<lparr>rows := remove1 k (rows (skill_categories_tbl db))\<rparr>\<rparr>) \<and>
      get_all_skill_categories (snd (delete_skill_category (SkillCategoryDB.id' k) db)) = remove1 k (get_all_skill_categories db) \<and>
      SkillCategoryDB.id' k \<notin> set (map SkillCategoryDB.id' (get_all_skill_categories (snd (delete_skill_category (SkillCategoryDB.id' k) db))))) \<and>
   (ic \<notin> set (map CertificationDB.id' (get_all_certifications db)) \<longrightarrow>
      delete_certification ic db = (Inl (HTTPException 404 ''Item not found''), db) \<and>
      status_code (fst (delete_certification ic db)) = 404) \<and>
   (db = run reqs empty_db \<and> c \<in> set (get_all_certifications db) \<longrightarrow>
      delete_certification (CertificationDB.id' c) db =
        (Inr ''Item deleted successfully'',
         db\<lparr>certifications_tbl := (certifications_tbl db)\<lparr>rows := remove1 c (rows (certifications_tbl db))\<rparr>\<rparr>) \<and>
      get_all_certifications (snd (delete_certification (CertificationDB.id' c) db)) = remove1 c (get_all_certifications db) \<and>
      CertificationDB.id' c \<notin> set (map CertificationDB.id' (get_all_certifications (snd (delete_certification (CertificationDB.id' c) db)))))"
proof -
  have c1: "ix \<notin> set (map ExperienceDB.id' (get_all_experiences db)) \<longrightarrow>
      delete_experience ix db = (Inl (HTTPException 404 ''Item not found''), db) \<and>
      status_code (fst (delete_experience ix db)) = 404"
    by (simp add: delete_experience_missing)
  have d1: "db = run reqs empty_db \<and> x \<in> set (get_all_experiences db) \<longrightarrow>
      delete_experience (ExperienceDB.id' x) db =
        (Inr ''Item deleted successfully'',
         db\<lparr>experience_tbl := (experience_tbl db)\<lparr>rows := remove1 x (rows (experience_tbl db))\<rparr>\<rparr>) \<and>
      get_all_experiences (snd (delete_experience (ExperienceDB.id' x) db)) = remove1 x (get_all_experiences db) \<and>
      ExperienceDB.id' x \<notin> set (map ExperienceDB.id' (get_all_experiences (snd (delete_experience (ExperienceDB.id' x) db))))"
    by (rule impI) (rule delete_experience_reachable)
  have c2: "ij \<notin> set (map ProjectDB.id' (get_all_projects db)) \<longrightarrow>
      delete_project ij db = (Inl (HTTPException 404 ''Item not found''), db) \<and>
      status_code (fst (delete_project ij db)) = 404"
    by (simp add: delete_project_missing)
  have d2: "db = run reqs empty_db \<and> j \<in> set (get_all_projects db) \<longrightarrow>
      delete_project (ProjectDB.id' j) db =
        (Inr ''Item deleted successfully'',
         db\<lparr>projects_tbl := (projects_tbl db)\<lparr>rows := remove1 j (rows (projects_tbl db))\<rparr>\<rparr>) \<and>
      get_all_projects (snd (delete_project (ProjectDB.id' j) db)) = remove1 j (get_all_projects db) \<and>
      ProjectDB.id' j \<notin> set (map ProjectDB.id' (get_all_projects (snd (delete_project (ProjectDB.id' j) db))))"
    by (rule impI) (rule delete_project_reachable)
  have c3: "ik \<notin> set (map SkillCategoryDB.id' (get_all_skill_categories db)) \<longrightarrow>
      delete_skill_category ik db = (Inl (HTTPException 404 ''Item not found''), db) \<and>
      status_code (fst (delete_skill_category ik db)) = 404"
    by (simp add: delete_skill_category_missing)
  have d3: "db = run reqs empty_db \<and> k \<in> set (get_all_skill_categories db) \<longrightarrow>
      delete_skill_category (SkillCategoryDB.id' k) db =
        (Inr ''Item deleted successfully'',
         db\<lparr>skill_categories_tbl := (skill_categories_tbl db)\<lparr>rows := remove1 k (rows (skill_categories_tbl db))\<rparr>\<rparr>) \<and>
      get_all_skill_categories (snd (delete_skill_category (SkillCategoryDB.id' k) db)) = remove1 k (get_all_skill_categories db) \<and>
      SkillCategoryDB.id' k \<notin> set (map SkillCategoryDB.id' (get_all_skill_categories (snd (delete_skill_category (SkillCategoryDB.id' k) db))))"
    by (rule impI) (rule delete_skill_category_reachable)
  have c4: "ic \<notin> set (map CertificationDB.id' (get_all_certifications db)) \<longrightarrow>
      delete_certification ic db = (Inl (HTTPException 404 ''Item not found''), db) \<and>
      status_code (fst (delete_certification ic db)) = 404"
    by (simp add: delete_certification_missing)
  have d4: "db = run reqs empty_db \<and> c \<in> set (get_all_certifications db) \<longrightarrow>
      delete_certification (CertificationDB.id' c) db =
        (Inr ''Item deleted successfully'',
         db\<lparr>certifications_tbl := (certifications_tbl db)\<lparr>rows := remove1 c (rows (certifications_tbl db))\<rparr>\<rparr>) \<and>
      get_all_certifications (snd (delete_certification (CertificationDB.id' c) db)) = remove1 c (get_all_certifications db) \<and>
      CertificationDB.id' c \<notin> set (map CertificationDB.id' (get_all_certifications (snd (delete_certification (CertificationDB.id' c) db))))"
    by (rule impI) (rule delete_certification_reachable)
  from c1 d1 c2 d2 c3 d3 c4 d4 show ?thesis by blast
qed

theorem delete_collection_item_witness:
  "7 \<notin> set (map ExperienceDB.id' (get_all_experiences (run sample_requests empty_db))) \<and>
   delete_experience 7 (run sample_requests empty_db) =
     (Inl (HTTPException 404 ''Item not found''), run sample_requests empty_db) \<and>
   construct ExperienceDB_model sample_experience 1 \<in> set (get_all_experiences (run sample_requests empty_db)) \<and>
   get_all_experiences (snd (delete_experience 1 (run sample_requests empty_db))) =
     [construct ExperienceDB_model sample_experience 2] \<and>
   7 \<notin> set (map ProjectDB.id' (get_all_projects (run sample_requests empty_db))) \<and>
   delete_project 7 (run sample_requests empty_db) =
     (Inl (HTTPException 404 ''Item not found''), run sample_requests empty_db) \<and>
   construct ProjectDB_model sample_project 1 \<in> set (get_all_projects (run sample_requests empty_db)) \<and>
   get_all_projects (snd (delete_project 1 (run sample_requests empty_db))) =
     [construct ProjectDB_model sample_project 2] \<and>
   7 \<notin> set (map SkillCategoryDB.id' (get_all_skill_categories (run sample_requests empty_db))) \<and>
   delete_skill_category 7 (run sample_requests empty_db) =
     (Inl (HTTPException 404 ''Item not found''), run sample_requests empty_db) \<and>
   construct SkillCategoryDB_model sample_skill 1 \<in> set (get_all_skill_categories (run sample_requests empty_db)) \<and>
   get_all_skill_categories (snd (delete_skill_category 1 (run sample_requests empty_db))) =
     [construct SkillCategoryDB_model third_skill 2] \<and>
   7 \<notin> set (map CertificationDB.id' (get_all_certifications (run sample_requests empty_db))) \<and>
   delete_certification 7 (run sample_requests empty_db) =
     (Inl (HTTPException 404 ''Item not found''), run sample_requests empty_db) \<and>
   construct CertificationDB_model sample_certification 1 \<in> set (get_all_certifications (run sample_requests empty_db)) \<and>
   get_all_certifications (snd (delete_certification 1 (run sample_requests empty_db))) =
     [construct CertificationDB_model sample_certification 2]"
  using delete_collection_item
    [where db = "run sample_requests empty_db"
       and reqs = sample_requests
       and ix = 7
       and x = "construct ExperienceDB_model sample_experience 1"
       and ij = 7
       and j = "construct ProjectDB_model sample_project 1"
       and ik = 7
       and k = "construct SkillCategoryDB_model sample_skill 1"
       and ic = 7
       and c = "construct CertificationDB_model sample_certification 1"]
  unfolding run_sample_requests
  by (simp add: third_skill_def eval_defs del: set_filter)

text \<open>
  C7. With a skill category of the same name stored, creating another one raises the
  store's integrity error, whatever the skills list of the new body, and the stored
  categories are unchanged. No handler catches that error, so the client is answered
  500; the counterexample evaluates the second create at a concrete body and shows the
  status is not 400.
\<close>

theorem duplicate_category_name:
  "k \<in> set (get_all_skill_categories db) \<and>
   SkillCategoryDB.category_name k = SkillCategoryCreate.category_name skill \<longrightarrow>
     fst (add_skill_category skill db) = Inl IntegrityError \<and>
     status_code (fst (add_skill_category skill db)) = 500 \<and>
     get_all_skill_categories (snd (add_skill_category skill db)) = get_all_skill_categories db"
proof
  assume a: "k \<in> set (get_all_skill_categories db) \<and>
    SkillCategoryDB.category_name k = SkillCategoryCreate.category_name skill"
  then have "k \<in> set (rows (skill_categories_tbl db))"
    by (simp add: get_all_skill_categories_def get_items_def find_all_def
          SkillCategoryDB_model_def)
  then have "SkillCategoryDB.category_name k
      \<in> set (map SkillCategoryDB.category_name (rows (skill_categories_tbl db)))"
    by simp
  with a have "violates_unique SkillCategoryDB_model
      (construct SkillCategoryDB_model skill (next_id (skill_categories_tbl db)))
      (rows (skill_categories_tbl db))"
    by (simp add: violates_unique_def SkillCategoryDB_model_def)
  then have "violates_unique SkillCategoryDB_model
      (construct SkillCategoryDB_model skill (next_id (tbl SkillCategoryDB_model db)))
      (rows (tbl SkillCategoryDB_model db))"
    by (simp add: SkillCategoryDB_model_def)
  then have "add_skill_category skill db =
      (Inl IntegrityError,
       put_tbl SkillCategoryDB_model
         ((tbl SkillCategoryDB_model db)
            \<lparr>next_id := next_id (tbl SkillCategoryDB_model db) + 1\<rparr>) db)"
    by (simp add: add_skill_category_def create_item_def insert_row_def Let_def lens_skills(3))
  then show "fst (add_skill_category skill db) = Inl IntegrityError \<and>
     status_code (fst (add_skill_category skill db)) = 500 \<and>
     get_all_skill_categories (snd (add_skill_category skill db)) = get_all_skill_categories db"
    by (simp add: get_all_skill_categories_def get_items_def find_all_def
          SkillCategoryDB_model_def)
qed

theorem duplicate_category_name_witness:
  "construct SkillCategoryDB_model sample_skill 1
     \<in> set (get_all_skill_categories (snd (add_skill_category sample_skill empty_db))) \<and>
   SkillCategoryDB.category_name (construct SkillCategoryDB_model sample_skill 1) =
     SkillCategoryCreate.category_name other_skill \<and>
   fst (add_skill_category other_skill (snd (add_skill_category sample_skill empty_db))) =
     Inl IntegrityError \<and>
   status_code
     (fst (add_skill_category other_skill (snd (add_skill_category sample_skill empty_db)))) =
     500 \<and>
   get_all_skill_categories
     (snd (add_skill_category other_skill (snd (add_skill_category sample_skill empty_db)))) =
     [construct SkillCategoryDB_model sample_skill 1]"
  using duplicate_category_name
    [of "construct SkillCategoryDB_model sample_skill 1"
      "snd (add_skill_category sample_skill empty_db)" other_skill]
  by (simp add: eval_defs del: set_filter)

theorem duplicate_category_name_counterexample:
  "get_all_skill_categories
     (snd (add_skill_category
        \<lparr>SkillCategoryCreate.category_name = ''Languages'', skills = [''Python'']\<rparr> empty_db)) =
     [\<lparr>SkillCategoryDB.id' = 1, category_name = ''Languages'', skills = [''Python'']\<rparr>] \<and>
   status_code
     (fst (add_skill_category
        \<lparr>SkillCategoryCreate.category_name = ''Languages'', skills = [''C'']\<rparr>
        (snd (add_skill_category
           \<lparr>SkillCategoryCreate.category_name = ''Languages'', skills = [''Python'']\<rparr>
           empty_db)))) \<noteq> 400"
  by (simp add: eval_defs del: set_filter)

text \<open>
  C8. For each collection, in a state reached from the empty store (the empty store
  itself for the empty request sequence), after any sequence of creates and deletes the
  list is the earlier list followed by the rows the successful creates returned, in call
  order, without the rows whose delete succeeded.
\<close>

theorem list_in_creation_order:
  assumes "db = run reqs empty_db"
  shows "get_all_experiences (run_ops ExperienceDB_model opsx db) =
     filter (\<lambda>r. ExperienceDB.id' r \<notin> set (deleted ExperienceDB_model opsx db))
       (get_all_experiences db @ created ExperienceDB_model opsx db) \<and>
   get_all_projects (run_ops ProjectDB_model opsj db) =
     filter (\<lambda>r. ProjectDB.id' r \<notin> set (deleted ProjectDB_model opsj db))
       (get_all_projects db @ created ProjectDB_model opsj db) \<and>
   get_all_skill_categories (run_ops SkillCategoryDB_model opsk db) =
     filter (\<lambda>r. SkillCategoryDB.id' r \<notin> set (deleted SkillCategoryDB_model opsk db))
       (get_all_skill_categories db @ created SkillCategoryDB_model opsk db) \<and>
   get_all_certifications (run_ops CertificationDB_model opsc db) =
     filter (\<lambda>r. CertificationDB.id' r \<notin> set (deleted CertificationDB_model opsc db))
       (get_all_certifications db @ created CertificationDB_model opsc db)"
  unfolding assms
  by (intro conjI) (rule list_experience_after_ops list_projects_after_ops list_skills_after_ops list_certifications_after_ops)+

theorem list_in_creation_order_witness:
  "empty_db = run [] empty_db \<and>
   get_all_experiences (run_ops ExperienceDB_model
      [Create sample_experience, Create sample_experience, Delete 7, Delete 1, Create sample_experience] empty_db) =
     [construct ExperienceDB_model sample_experience 2, construct ExperienceDB_model sample_experience 3] \<and>
   get_all_projects (run_ops ProjectDB_model
      [Create sample_project, Create sample_project, Delete 7, Delete 1, Create sample_project] empty_db) =
     [construct ProjectDB_model sample_project 2, construct ProjectDB_model sample_project 3] \<and>
   get_all_skill_categories (run_ops SkillCategoryDB_model
      [Create sample_skill, Create other_skill, Create third_skill, Delete 7, Delete 1] empty_db) =
     [construct SkillCategoryDB_model third_skill 3] \<and>
   get_all_certifications (run_ops CertificationDB_model
      [Create sample_certification, Create sample_certification, Delete 7, Delete 1, Create sample_certification] empty_db) =
     [construct CertificationDB_model sample_certification 2, construct CertificationDB_model sample_certification 3]"
  using list_in_creation_order
    [where db = empty_db
       and reqs = "[]"
       and opsx = "[Create sample_experience, Create sample_experience, Delete 7, Delete 1, Create sample_experience]"
       and opsj = "[Create sample_project, Create sample_project, Delete 7, Delete 1, Create sample_project]"
       and opsk = "[Create sample_skill, Create other_skill, Create third_skill, Delete 7, Delete 1]"
       and opsc = "[Create sample_certification, Create sample_certification, Delete 7, Delete 1, Create sample_certification]"]
  by (simp add: third_skill_def eval_defs del: set_filter)

end
